theory Spec2Isabelle
  imports Complex_Main "HOL-Library.Monad_Syntax" "HOL-Library.Multiset" "HOL-Library.AList"
begin

section \<open>Python text\<close>

text \<open>
  A Python \<open>str\<close> is a sequence of Unicode code points, so a text is a list of code
  points (natural numbers).  ASCII literals of the source are written with \<open>str\<close>.
\<close>

type_synonym pystr = "nat list"

definition str :: "string \<Rightarrow> pystr" where
  "str s = map of_char s"

text \<open>
  \<open>str.isspace\<close> on one character; the same set is what \<open>str.strip()\<close> removes and
  what \<open>\s\<close> matches in a \<open>str\<close> pattern of the \<open>re\<close> module.
\<close>

definition isspace :: "nat \<Rightarrow> bool" where
  "isspace c \<longleftrightarrow>
     (9 \<le> c \<and> c \<le> 13) \<or> (28 \<le> c \<and> c \<le> 31) \<or> c = 32 \<or> c = 133 \<or> c = 160 \<or>
     c = 5760 \<or> (8192 \<le> c \<and> c \<le> 8202) \<or> c = 8232 \<or> c = 8233 \<or> c = 8239 \<or>
     c = 8287 \<or> c = 12288"

text \<open>The line boundaries of \<open>str.splitlines()\<close>.\<close>

definition is_linebreak :: "nat \<Rightarrow> bool" where
  "is_linebreak c \<longleftrightarrow>
     (10 \<le> c \<and> c \<le> 13) \<or> (28 \<le> c \<and> c \<le> 30) \<or> c = 133 \<or> c = 8232 \<or> c = 8233"

text \<open>\<open>s.strip()\<close>: leading and trailing whitespace removed.\<close>

definition strip :: "pystr \<Rightarrow> pystr" where
  "strip s = rev (dropWhile isspace (rev (dropWhile isspace s)))"

text \<open>
  \<open>s.splitlines()\<close>: the text is cut at every line boundary, \<open>\r\n\<close> counting as one;
  the boundaries are dropped, and a boundary at the very end opens no further line.
  The first argument is the line read so far.
\<close>

fun splitlines_from :: "pystr \<Rightarrow> pystr \<Rightarrow> pystr list" where
  "splitlines_from cur [] = (if cur = [] then [] else [cur])"
| "splitlines_from cur (c # cs) =
     (if is_linebreak c
      then cur # splitlines_from [] (if c = 13 \<and> take 1 cs = [10] then drop 1 cs else cs)
      else splitlines_from (cur @ [c]) cs)"

definition splitlines :: "pystr \<Rightarrow> pystr list" where
  "splitlines s = splitlines_from [] s"

text \<open>
  \<open>sep in s\<close> and \<open>s.split(sep, 1)\<close> for a non-empty separator: the text is cut at the
  leftmost occurrence of \<open>sep\<close>; without an occurrence the result is the one-element
  list \<open>[s]\<close>.
\<close>

fun find_sub :: "pystr \<Rightarrow> pystr \<Rightarrow> pystr \<Rightarrow> (pystr \<times> pystr) option" where
  "find_sub sep pre [] = None"
| "find_sub sep pre (c # cs) =
     (if take (length sep) (c # cs) = sep then Some (pre, drop (length sep) (c # cs))
      else find_sub sep (pre @ [c]) cs)"

definition str_in :: "pystr \<Rightarrow> pystr \<Rightarrow> bool" where
  "str_in sep s = (find_sub sep [] s \<noteq> None)"

definition split1 :: "pystr \<Rightarrow> pystr \<Rightarrow> pystr list" where
  "split1 s sep = (case find_sub sep [] s of None \<Rightarrow> [s] | Some (a, b) \<Rightarrow> [a, b])"

text \<open>\<open>xs[i]\<close> for a non-negative index: \<open>None\<close> stands for the \<open>IndexError\<close>.\<close>

definition index :: "'a list \<Rightarrow> nat \<Rightarrow> 'a option" where
  "index xs i = (if i < length xs then Some (xs ! i) else None)"

text \<open>\<open>sep.join(xs)\<close>.\<close>

fun join :: "pystr \<Rightarrow> pystr list \<Rightarrow> pystr" where
  "join sep [] = []"
| "join sep [x] = x"
| "join sep (x # y # ys) = x @ sep @ join sep (y # ys)"

text \<open>\<open>str(n)\<close> for an integer: its decimal digits, with a minus sign when negative.\<close>

fun nat_digits :: "nat \<Rightarrow> pystr" where
  "nat_digits n = (if n < 10 then [48 + n] else nat_digits (n div 10) @ [48 + n mod 10])"

declare nat_digits.simps [simp del]

definition str_int :: "int \<Rightarrow> pystr" where
  "str_int i = (if i < 0 then 45 # nat_digits (nat (- i)) else nat_digits (nat i))"

section \<open>Regular expressions of the tolerant matchers\<close>

text \<open>
  Every pattern of the source is a sequence of single-character atoms, each taken once
  or under \<open>*\<close> or \<open>+\<close>: a literal character, a literal under \<open>re.IGNORECASE\<close>, \<open>\s\<close>
  and \<open>.\<close> (any character but the newline).
\<close>

datatype atom = Lit nat | LitI nat | Space | Dot

datatype quant = One | Star | Plus

type_synonym regex = "(atom \<times> quant) list"

definition ascii_lower :: "nat \<Rightarrow> nat" where
  "ascii_lower c = (if 65 \<le> c \<and> c \<le> 90 then c + 32 else c)"

text \<open>
  A character \<open>c\<close> of the text against the ASCII pattern character \<open>p\<close> under
  \<open>re.IGNORECASE\<close>: equal up to letter case, and besides the four non-ASCII characters
  that the \<open>re\<close> module folds onto \<open>i\<close>, \<open>s\<close> and \<open>k\<close>.
\<close>

definition ignorecase_eq :: "nat \<Rightarrow> nat \<Rightarrow> bool" where
  "ignorecase_eq p c \<longleftrightarrow>
     ascii_lower c = ascii_lower p \<or>
     (ascii_lower p = 105 \<and> (c = 304 \<or> c = 305)) \<or>
     (ascii_lower p = 115 \<and> c = 383) \<or>
     (ascii_lower p = 107 \<and> c = 8490)"

fun atom_ok :: "atom \<Rightarrow> nat \<Rightarrow> bool" where
  "atom_ok (Lit p) c = (c = p)"
| "atom_ok (LitI p) c = ignorecase_eq p c"
| "atom_ok Space c = isspace c"
| "atom_ok Dot c = (c \<noteq> 10)"

text \<open>Does the pattern match at the very start of the text?\<close>

fun match_here :: "regex \<Rightarrow> pystr \<Rightarrow> bool" where
  "match_here [] s = True"
| "match_here ((a, One) # r) [] = False"
| "match_here ((a, One) # r) (c # cs) = (if atom_ok a c then match_here r cs else False)"
| "match_here ((a, Star) # r) [] = match_here r []"
| "match_here ((a, Star) # r) (c # cs) =
     (if atom_ok a c
      then (if match_here ((a, Star) # r) cs then True else match_here r (c # cs))
      else match_here r (c # cs))"
| "match_here ((a, Plus) # r) [] = False"
| "match_here ((a, Plus) # r) (c # cs) =
     (if atom_ok a c then match_here ((a, Star) # r) cs else False)"

text \<open>
  \<open>pattern.search(s)\<close>: the start position of the leftmost match, \<open>None\<close> without one.
  The second argument counts the positions passed.
\<close>

fun search_from :: "regex \<Rightarrow> nat \<Rightarrow> pystr \<Rightarrow> nat option" where
  "search_from r i [] = (if match_here r [] then Some i else None)"
| "search_from r i (c # cs) =
     (if match_here r (c # cs) then Some i else search_from r (Suc i) cs)"

definition re_search :: "regex \<Rightarrow> pystr \<Rightarrow> nat option" where
  "re_search r s = search_from r 0 s"

definition lits :: "string \<Rightarrow> regex" where
  "lits s = map (\<lambda>c. (Lit (of_char c), One)) s"

definition lits_i :: "string \<Rightarrow> regex" where
  "lits_i s = map (\<lambda>c. (LitI (of_char c), One)) s"

text \<open>\<open>Alice.*100\<close>, \<open>Alice.*150\<close> and \<open>Bob.*200\<close>.\<close>

definition RE_JOINED_A1 :: regex where
  "RE_JOINED_A1 = lits ''Alice'' @ [(Dot, Star)] @ lits ''100''"

definition RE_JOINED_A2 :: regex where
  "RE_JOINED_A2 = lits ''Alice'' @ [(Dot, Star)] @ lits ''150''"

definition RE_JOINED_B1 :: regex where
  "RE_JOINED_B1 = lits ''Bob'' @ [(Dot, Star)] @ lits ''200''"

text \<open>\<open>Alice\s+2\s+250\<close> and \<open>Bob\s+1\s+200\<close>.\<close>

definition RE_G_A :: regex where
  "RE_G_A = lits ''Alice'' @ [(Space, Plus)] @ lits ''2'' @ [(Space, Plus)] @ lits ''250''"

definition RE_G_B :: regex where
  "RE_G_B = lits ''Bob'' @ [(Space, Plus)] @ lits ''1'' @ [(Space, Plus)] @ lits ''200''"

text \<open>\<open>Name:\s*Alice\<close> and \<open>total_spent\s+250\<close>, both compiled with \<open>re.IGNORECASE\<close>.\<close>

definition RE_TOP_NAME :: regex where
  "RE_TOP_NAME = lits_i ''Name:'' @ [(Space, Star)] @ lits_i ''Alice''"

definition RE_TOP_VAL :: regex where
  "RE_TOP_VAL = lits_i ''total_spent'' @ [(Space, Plus)] @ lits_i ''250''"

text \<open>
  The header strings of \<open>grade_pandas.py\<close>, code point by code point as the file has
  them: the three characters U+00E2 U+0153 U+2026 and a space before the words of the
  first three, U+00F0 U+0178 U+2020 and a space before \<open>Top User:\<close>.
\<close>

definition pandas_mark :: pystr where
  "pandas_mark = [226, 339, 8230, 32]"

definition pandas_cup :: pystr where
  "pandas_cup = [240, 376, 8224, 32]"

definition pandas_sorted_header :: pystr where
  "pandas_sorted_header = pandas_mark @ str ''Sorted Result:''"

definition pandas_top_header :: pystr where
  "pandas_top_header = pandas_cup @ str ''Top User:''"

definition joined_fallback :: "pystr \<Rightarrow> bool" where
  "joined_fallback stdout =
     list_all (\<lambda>p. re_search p stdout \<noteq> None) [RE_JOINED_A1, RE_JOINED_A2, RE_JOINED_B1]"

definition grouped_fallback :: "pystr \<Rightarrow> bool" where
  "grouped_fallback stdout =
     (re_search RE_G_A stdout \<noteq> None \<and> re_search RE_G_B stdout \<noteq> None)"

text \<open>
  The search window of the sort and top-user checks: the text after the first
  occurrence of the header when the header occurs, the whole text otherwise.
  \<open>None\<close> stands for the \<open>IndexError\<close> of \<open>[1]\<close>.
\<close>

definition section_after :: "pystr \<Rightarrow> pystr \<Rightarrow> pystr option" where
  "section_after header stdout =
     (if str_in header stdout then index (split1 stdout header) 1 else Some stdout)"

definition sorted_fallback :: "pystr \<Rightarrow> bool option" where
  "sorted_fallback stdout = do {
     section \<leftarrow> section_after pandas_sorted_header stdout;
     let ma = re_search RE_G_A section;
     let mb = re_search RE_G_B section;
     Some (case (ma, mb) of (Some a, Some b) \<Rightarrow> a < b | _ \<Rightarrow> False)
   }"

definition top_user_fallback :: "pystr \<Rightarrow> bool option" where
  "top_user_fallback stdout = do {
     block \<leftarrow> section_after pandas_top_header stdout;
     Some (re_search RE_TOP_NAME block \<noteq> None \<and> re_search RE_TOP_VAL block \<noteq> None)
   }"

section \<open>Python values and the strict comparator\<close>

text \<open>
  The values that \<open>ast.literal_eval\<close> can return and that the graders compare: \<open>None\<close>,
  \<open>Ellipsis\<close>, booleans, integers, floats, complex numbers, strings, byte strings, lists,
  tuples, dictionaries and sets.  A float is the rational number it stands for, or an
  infinity (a literal cannot give a NaN); a dictionary is the list of its items in
  insertion order, a set the list of its elements.
\<close>

datatype pyflt = Finite rat | Inf bool

datatype pyval = PNone | PEllipsis | PBool bool | PInt int | PFloat pyflt
  | PComplex pyflt pyflt | PStr pystr | PBytes "nat list"
  | PList "pyval list" | PTuple "pyval list" | PDict "(pyval \<times> pyval) list"
  | PSet "pyval list"

text \<open>
  The value of a number as a pair of real and imaginary part.  Python compares numbers
  of different types by their exact values: \<open>True == 1\<close>, \<open>100.0 == 100\<close>, \<open>(1+0j) == 1\<close>.
\<close>

fun num_val :: "pyval \<Rightarrow> (pyflt \<times> pyflt) option" where
  "num_val (PBool b) = Some (Finite (if b then 1 else 0), Finite 0)"
| "num_val (PInt i) = Some (Finite (of_int i), Finite 0)"
| "num_val (PFloat x) = Some (x, Finite 0)"
| "num_val (PComplex x y) = Some (x, y)"
| "num_val v = None"

definition num_eq :: "pyval \<Rightarrow> pyval \<Rightarrow> bool" where
  "num_eq a b = (case (num_val a, num_val b) of (Some x, Some y) \<Rightarrow> x = y | _ \<Rightarrow> False)"

text \<open>
  Python's \<open>a == b\<close> on these values.  Lists and tuples compare item by item.  Two
  dictionaries are equal when they have the same number of items and every item of the
  first has, in the second, an equal key with an equal value; \<open>py_has_item k v d\<close> is the
  look-up of \<open>k\<close> in \<open>d\<close> followed by the comparison of \<open>v\<close> with the value found.  Two
  sets are equal when they have the same number of elements and every element of the
  first is in the second.
\<close>

function py_eq :: "pyval \<Rightarrow> pyval \<Rightarrow> bool"
  and py_eq_seq :: "pyval list \<Rightarrow> pyval list \<Rightarrow> bool"
  and py_has_item :: "pyval \<Rightarrow> pyval \<Rightarrow> (pyval \<times> pyval) list \<Rightarrow> bool"
  and py_dict_le :: "(pyval \<times> pyval) list \<Rightarrow> (pyval \<times> pyval) list \<Rightarrow> bool"
  and py_mem :: "pyval \<Rightarrow> pyval list \<Rightarrow> bool"
  and py_set_le :: "pyval list \<Rightarrow> pyval list \<Rightarrow> bool"
where
  "py_eq PNone b = (case b of PNone \<Rightarrow> True | _ \<Rightarrow> False)"
| "py_eq PEllipsis b = (case b of PEllipsis \<Rightarrow> True | _ \<Rightarrow> False)"
| "py_eq (PBool x) b = num_eq (PBool x) b"
| "py_eq (PInt i) b = num_eq (PInt i) b"
| "py_eq (PFloat x) b = num_eq (PFloat x) b"
| "py_eq (PComplex x y) b = num_eq (PComplex x y) b"
| "py_eq (PStr s) b = (case b of PStr t \<Rightarrow> s = t | _ \<Rightarrow> False)"
| "py_eq (PBytes s) b = (case b of PBytes t \<Rightarrow> s = t | _ \<Rightarrow> False)"
| "py_eq (PList xs) b = (case b of PList ys \<Rightarrow> py_eq_seq xs ys | _ \<Rightarrow> False)"
| "py_eq (PTuple xs) b = (case b of PTuple ys \<Rightarrow> py_eq_seq xs ys | _ \<Rightarrow> False)"
| "py_eq (PDict kvs) b =
     (case b of
        PDict kws \<Rightarrow> (if length kvs = length kws then py_dict_le kvs kws else False)
      | _ \<Rightarrow> False)"
| "py_eq (PSet xs) b =
     (case b of
        PSet ys \<Rightarrow> (if length xs = length ys then py_set_le xs ys else False)
      | _ \<Rightarrow> False)"
| "py_eq_seq [] ys = (ys = [])"
| "py_eq_seq (x # xs) [] = False"
| "py_eq_seq (x # xs) (y # ys) = (if py_eq x y then py_eq_seq xs ys else False)"
| "py_has_item k v [] = False"
| "py_has_item k v ((k', w) # kws) = (if py_eq k' k then py_eq v w else py_has_item k v kws)"
| "py_dict_le [] kws = True"
| "py_dict_le ((k, v) # kvs) kws = (if py_has_item k v kws then py_dict_le kvs kws else False)"
| "py_mem x [] = False"
| "py_mem x (y # ys) = (if py_eq y x then True else py_mem x ys)"
| "py_set_le [] ys = True"
| "py_set_le (x # xs) ys = (if py_mem x ys then py_set_le xs ys else False)"
  by pat_completeness auto
termination
  by size_change

definition compare_deep :: "pyval \<Rightarrow> pyval \<Rightarrow> bool" where
  "compare_deep a b = py_eq a b"

section \<open>The answer extractor\<close>

text \<open>
  \<open>ast.literal_eval\<close> is a parameter \<open>lit\<close> of the extractor and of the graders: the
  parsed value, or \<open>None\<close> when it raises.  \<open>safe_literal_eval\<close> turns the exception
  into Python's \<open>None\<close>.
\<close>

definition safe_literal_eval :: "(pystr \<Rightarrow> pyval option) \<Rightarrow> pystr \<Rightarrow> pyval" where
  "safe_literal_eval lit s = (case lit (strip s) of Some v \<Rightarrow> v | None \<Rightarrow> PNone)"

text \<open>The inner loop: the first line, from the one after the header on, that is not blank.\<close>

fun next_nonblank :: "pystr list \<Rightarrow> pystr option" where
  "next_nonblank [] = None"
| "next_nonblank (l # ls) = (let nxt = strip l in if nxt \<noteq> [] then Some nxt else next_nonblank ls)"

text \<open>The outer loop over the lines, left at the first line that is the header.\<close>

fun scan_header :: "(pystr \<Rightarrow> pyval option) \<Rightarrow> pystr \<Rightarrow> pystr list \<Rightarrow> pyval" where
  "scan_header lit header [] = PNone"
| "scan_header lit header (line # rest) =
     (if strip line = header
      then (case next_nonblank rest of Some nxt \<Rightarrow> safe_literal_eval lit nxt | None \<Rightarrow> PNone)
      else scan_header lit header rest)"

definition extract_after_header :: "(pystr \<Rightarrow> pyval option) \<Rightarrow> pystr \<Rightarrow> pystr \<Rightarrow> pyval" where
  "extract_after_header lit stdout header = scan_header lit header (splitlines stdout)"

section \<open>Configuration of the two graders\<close>

text \<open>
  A dictionary with string keys is the list of its items; \<open>map_of d k\<close> is \<open>d[k]\<close>
  with \<open>None\<close> for the \<open>KeyError\<close>, and \<open>AList.update k v d\<close> is \<open>d[k] = v\<close>.
\<close>

definition order_of :: "int \<Rightarrow> int \<Rightarrow> pyval" where
  "order_of n t = PDict [(PStr (str ''num_orders''), PInt n), (PStr (str ''total_spent''), PInt t)]"

definition joined_row :: "string \<Rightarrow> int \<Rightarrow> pyval" where
  "joined_row name t = PDict [(PStr (str ''name''), PStr (str name)), (PStr (str ''total''), PInt t)]"

definition expected_joined :: pyval where
  "expected_joined =
     PList [joined_row ''Alice'' 100, joined_row ''Alice'' 150, joined_row ''Bob'' 200]"

definition expected_grouped :: pyval where
  "expected_grouped =
     PDict [(PStr (str ''Alice''), order_of 2 250), (PStr (str ''Bob''), order_of 1 200)]"

definition expected_sorted_result :: pyval where
  "expected_sorted_result =
     PList [PTuple [PStr (str ''Alice''), order_of 2 250],
            PTuple [PStr (str ''Bob''), order_of 1 200]]"

definition expected_top_user :: pyval where
  "expected_top_user = PTuple [PStr (str ''Alice''), order_of 2 250]"

definition EXPECTED :: "(string \<times> pyval) list" where
  "EXPECTED =
     [(''joined'', expected_joined), (''grouped'', expected_grouped),
      (''sorted_result'', expected_sorted_result), (''top_user'', expected_top_user)]"

definition pandas_POINTS :: "(string \<times> int) list" where
  "pandas_POINTS = [(''joined'', 5), (''grouped'', 10), (''sorted_result'', 20), (''top_user'', 5)]"

definition list_POINTS :: "(string \<times> int) list" where
  "list_POINTS = [(''joined'', 15), (''grouped'', 30), (''sorted_result'', 15), (''top_user'', 10)]"

definition pandas_joined_header :: pystr where
  "pandas_joined_header = pandas_mark @ str ''Joined Result:''"

definition pandas_grouped_header :: pystr where
  "pandas_grouped_header = pandas_mark @ str ''Grouped Result:''"

definition pandas_HEADERS :: "(string \<times> pystr) list" where
  "pandas_HEADERS =
     [(''joined'', pandas_joined_header), (''grouped'', pandas_grouped_header),
      (''sorted_result'', pandas_sorted_header), (''top_user'', pandas_top_header)]"

text \<open>
  The headers of \<open>grade_python_list.py\<close> start with U+2705 and U+1F3C6.
\<close>

definition list_joined_header :: pystr where
  "list_joined_header = [9989, 32] @ str ''Joined Result:''"

definition list_grouped_header :: pystr where
  "list_grouped_header = [9989, 32] @ str ''Grouped Result:''"

definition list_sorted_header :: pystr where
  "list_sorted_header = [9989, 32] @ str ''Sorted Result:''"

definition list_top_header :: pystr where
  "list_top_header = [127942, 32] @ str ''Top User:''"

definition list_HEADERS :: "(string \<times> pystr) list" where
  "list_HEADERS =
     [(''joined'', list_joined_header), (''grouped'', list_grouped_header),
      (''sorted_result'', list_sorted_header), (''top_user'', list_top_header)]"

text \<open>\<open>{k: 0 for k in POINTS}\<close>.\<close>

definition zero_breakdown :: "(string \<times> int) list \<Rightarrow> (string \<times> int) list" where
  "zero_breakdown points = foldl (\<lambda>d k. AList.update k 0 d) [] (map fst points)"

section \<open>Scoring: \<open>grade_pandas.py\<close>\<close>

text \<open>The first loop of \<open>grade_from_stdout\<close>: one extraction per header.\<close>

definition pandas_parsed :: "(pystr \<Rightarrow> pyval option) \<Rightarrow> pystr \<Rightarrow> (string \<times> pyval) list" where
  "pandas_parsed lit stdout =
     foldl (\<lambda>parsed (key, header). AList.update key (extract_after_header lit stdout header) parsed)
       [] pandas_HEADERS"

text \<open>
  One of the four \<open>if\<close>/\<open>elif\<close>/\<open>else\<close> blocks, for the key and its fallback.  The state
  is the breakdown and the remarks.
\<close>

definition pandas_score ::
  "string \<Rightarrow> (pystr \<Rightarrow> bool option) \<Rightarrow> pystr \<Rightarrow> (string \<times> pyval) list \<Rightarrow>
   (string \<times> int) list \<times> pystr list \<Rightarrow> ((string \<times> int) list \<times> pystr list) option" where
  "pandas_score key fallback stdout parsed st = do {
     obj \<leftarrow> map_of parsed key;
     strict \<leftarrow> (if obj \<noteq> PNone
                then do { expected \<leftarrow> map_of EXPECTED key; Some (compare_deep obj expected) }
                else Some False);
     if strict
     then do { p \<leftarrow> map_of pandas_POINTS key; Some (AList.update key p (fst st), snd st) }
     else do {
       ok \<leftarrow> fallback stdout;
       if ok
       then do { p \<leftarrow> map_of pandas_POINTS key; Some (AList.update key p (fst st), snd st) }
       else Some (fst st, snd st @ [str key @ str '' mismatch''])
     }
   }"

definition pandas_grade_from_stdout ::
  "(pystr \<Rightarrow> pyval option) \<Rightarrow> pystr \<Rightarrow> (int \<times> (string \<times> int) list \<times> pystr list) option" where
  "pandas_grade_from_stdout lit stdout = do {
     let breakdown = zero_breakdown pandas_POINTS;
     let remarks = [];
     let parsed = pandas_parsed lit stdout;
     st \<leftarrow> pandas_score ''joined'' (\<lambda>s. Some (joined_fallback s)) stdout parsed (breakdown, remarks);
     st \<leftarrow> pandas_score ''grouped'' (\<lambda>s. Some (grouped_fallback s)) stdout parsed st;
     st \<leftarrow> pandas_score ''sorted_result'' sorted_fallback stdout parsed st;
     st \<leftarrow> pandas_score ''top_user'' top_user_fallback stdout parsed st;
     let total = sum_list (map snd (fst st));
     Some (total, fst st, snd st)
   }"

section \<open>Scoring: \<open>grade_python_list.py\<close>\<close>

text \<open>
  The first loop: one extraction per header, and a remark for each one that is \<open>None\<close>.
\<close>

definition list_parsed ::
  "(pystr \<Rightarrow> pyval option) \<Rightarrow> pystr \<Rightarrow> (string \<times> pyval) list \<times> pystr list" where
  "list_parsed lit stdout =
     foldl (\<lambda>(parsed, remarks) (key, header).
              let obj = extract_after_header lit stdout header
              in (AList.update key obj parsed,
                  if obj = PNone
                  then remarks @ [str ''Missing or unparsable output for: '' @ str key]
                  else remarks))
       ([], []) list_HEADERS"

text \<open>
  The second loop, over the keys of \<open>POINTS\<close>: \<open>list_score_key\<close> is its body for one key,
  \<open>list_score\<close> the loop.  \<open>fmt\<close> is the conversion of a value to text inside an
  f-string, \<open>None\<close> when the conversion raises (a \<open>ValueError\<close> for an integer of more
  than 4300 digits); nothing catches it, so the scorer raises too.  The expected value
  is formatted before the extracted one, as the f-string has them.
\<close>

definition list_score_key ::
  "(pyval \<Rightarrow> pystr option) \<Rightarrow> (string \<times> pyval) list \<Rightarrow> string \<Rightarrow>
   (string \<times> int) list \<times> pystr list \<Rightarrow> ((string \<times> int) list \<times> pystr list) option" where
  "list_score_key fmt parsed key st = do {
     let obj = (case map_of parsed key of Some v \<Rightarrow> v | None \<Rightarrow> PNone);
     expected \<leftarrow> map_of EXPECTED key;
     if obj \<noteq> PNone \<and> compare_deep obj expected
     then do { p \<leftarrow> map_of list_POINTS key; Some (AList.update key p (fst st), snd st) }
     else do {
       e \<leftarrow> fmt expected;
       g \<leftarrow> fmt obj;
       Some (fst st, snd st @ [str key @ str '': expected '' @ e @ str '', got '' @ g])
     }
   }"

fun list_score ::
  "(pyval \<Rightarrow> pystr option) \<Rightarrow> (string \<times> pyval) list \<Rightarrow> string list \<Rightarrow>
   (string \<times> int) list \<times> pystr list \<Rightarrow> ((string \<times> int) list \<times> pystr list) option" where
  "list_score fmt parsed [] st = Some st"
| "list_score fmt parsed (key # keys) st = do {
     st' \<leftarrow> list_score_key fmt parsed key st;
     list_score fmt parsed keys st'
   }"

definition list_grade_from_stdout ::
  "(pystr \<Rightarrow> pyval option) \<Rightarrow> (pyval \<Rightarrow> pystr option) \<Rightarrow> pystr \<Rightarrow>
   (int \<times> (string \<times> int) list \<times> pystr list) option" where
  "list_grade_from_stdout lit fmt stdout = do {
     let breakdown = zero_breakdown list_POINTS;
     let (parsed, remarks) = list_parsed lit stdout;
     st \<leftarrow> list_score fmt parsed (map fst list_POINTS) (breakdown, remarks);
     let total = sum_list (map snd (fst st));
     Some (total, fst st, snd st)
   }"

section \<open>Assembling the record of one submission\<close>

record GradeResult =
  student_id :: pystr
  filename :: pystr
  total :: int
  breakdown :: "(string \<times> int) list"
  remarks :: pystr
  raw_stdout :: pystr
  raw_stderr :: pystr

text \<open>
  The \<open>if code != 0\<close> of \<open>main\<close>, the same in both graders but for \<open>POINTS\<close> and the
  scorer: total, breakdown and list of remarks of one submission.
\<close>

definition failure_remark :: "int \<Rightarrow> pystr \<Rightarrow> pystr" where
  "failure_remark code stderr =
     str ''Script failed (exit '' @ str_int code @ str ''). Stderr: '' @ take 500 stderr"

definition main_score ::
  "(string \<times> int) list \<Rightarrow> (pystr \<Rightarrow> (int \<times> (string \<times> int) list \<times> pystr list) option) \<Rightarrow>
   pystr \<Rightarrow> pystr \<Rightarrow> int \<Rightarrow> (int \<times> (string \<times> int) list \<times> pystr list) option" where
  "main_score points grade stdout stderr code =
     (if code \<noteq> 0
      then Some (0, zero_breakdown points, [failure_remark code stderr])
      else grade stdout)"

text \<open>The body of the loop of \<open>main\<close> after the submission has run.\<close>

definition main_body ::
  "(string \<times> int) list \<Rightarrow> (pystr \<Rightarrow> (int \<times> (string \<times> int) list \<times> pystr list) option) \<Rightarrow>
   pystr \<Rightarrow> pystr \<Rightarrow> pystr \<Rightarrow> pystr \<Rightarrow> int \<Rightarrow> GradeResult option" where
  "main_body points grade sid fname stdout stderr code = do {
     (t, b, rmk) \<leftarrow> main_score points grade stdout stderr code;
     Some \<lparr>student_id = sid, filename = fname, total = t, breakdown = b,
           remarks = join (str '' | '') rmk, raw_stdout = stdout, raw_stderr = stderr\<rparr>
   }"

definition pandas_main_body ::
  "(pystr \<Rightarrow> pyval option) \<Rightarrow> pystr \<Rightarrow> pystr \<Rightarrow> pystr \<Rightarrow> pystr \<Rightarrow> int \<Rightarrow> GradeResult option" where
  "pandas_main_body lit = main_body pandas_POINTS (pandas_grade_from_stdout lit)"

definition list_main_body ::
  "(pystr \<Rightarrow> pyval option) \<Rightarrow> (pyval \<Rightarrow> pystr option) \<Rightarrow>
   pystr \<Rightarrow> pystr \<Rightarrow> pystr \<Rightarrow> pystr \<Rightarrow> int \<Rightarrow> GradeResult option" where
  "list_main_body lit fmt = main_body list_POINTS (list_grade_from_stdout lit fmt)"

section \<open>A fragment of \<open>ast.literal_eval\<close> and of \<open>str()\<close>\<close>

text \<open>
  For results at concrete texts the parameter \<open>lit\<close> is instantiated with a parser of
  the literals that the exercise prints: \<open>None\<close>, \<open>True\<close>, \<open>False\<close>, decimal integers
  with an optional minus sign, hexadecimal integers after \<open>0x\<close>, strings in single or
  double quotes without backslash, and lists, tuples and dictionaries of such values,
  with blanks between the tokens.  On every other line the parser answers \<open>None\<close>, also
  where Python parses the line (floats, sets, byte strings, escapes); the results that
  hold for every text are stated for an arbitrary \<open>lit\<close> and do not depend on this
  fragment.
\<close>

definition skip_ws :: "pystr \<Rightarrow> pystr" where
  "skip_ws s = dropWhile (\<lambda>c. c = 32 \<or> c = 9) s"

definition is_digit :: "nat \<Rightarrow> bool" where
  "is_digit c \<longleftrightarrow> 48 \<le> c \<and> c \<le> 57"

text \<open>A character that continues a name or a number, so that the token does not end.\<close>

definition continues_token :: "pystr \<Rightarrow> bool" where
  "continues_token s =
     (case s of [] \<Rightarrow> False
      | c # _ \<Rightarrow> is_digit c \<or> (65 \<le> c \<and> c \<le> 90) \<or> (97 \<le> c \<and> c \<le> 122) \<or> c = 95 \<or> c = 46 \<or> 128 \<le> c)"

fun digits_value :: "nat \<Rightarrow> pystr \<Rightarrow> nat" where
  "digits_value acc [] = acc"
| "digits_value acc (c # cs) = digits_value (10 * acc + (c - 48)) cs"

text \<open>
  A decimal integer.  Python refuses a decimal literal of more than 4300 digits (the
  limit of \<open>sys.set_int_max_str_digits\<close>) with a \<open>SyntaxError\<close>.
\<close>

definition parse_nat :: "pystr \<Rightarrow> (nat \<times> pystr) option" where
  "parse_nat s =
     (let ds = takeWhile is_digit s; r = dropWhile is_digit s
      in if ds = [] \<or> (1 < length ds \<and> take 1 ds = [48]) \<or> 4300 < length ds \<or>
            continues_token r
         then None
         else Some (digits_value 0 ds, r))"

text \<open>
  A hexadecimal integer after \<open>0x\<close>: its digits and their value.  The limit on the
  number of digits does not apply to it.
\<close>

definition is_hex :: "nat \<Rightarrow> bool" where
  "is_hex c \<longleftrightarrow> is_digit c \<or> (97 \<le> c \<and> c \<le> 102) \<or> (65 \<le> c \<and> c \<le> 70)"

definition hex_digit :: "nat \<Rightarrow> nat" where
  "hex_digit c = (if is_digit c then c - 48 else if 97 \<le> c then c - 87 else c - 55)"

fun hex_value :: "nat \<Rightarrow> pystr \<Rightarrow> nat" where
  "hex_value acc [] = acc"
| "hex_value acc (c # cs) = hex_value (16 * acc + hex_digit c) cs"

definition parse_hex :: "pystr \<Rightarrow> (nat \<times> pystr) option" where
  "parse_hex s =
     (let hs = takeWhile is_hex s; r = dropWhile is_hex s
      in if hs = [] \<or> continues_token r then None else Some (hex_value 0 hs, r))"

definition parse_atom :: "pystr \<Rightarrow> (pyval \<times> pystr) option" where
  "parse_atom s =
     (if take 4 s = str ''None'' \<and> \<not> continues_token (drop 4 s) then Some (PNone, drop 4 s)
      else if take 4 s = str ''True'' \<and> \<not> continues_token (drop 4 s) then Some (PBool True, drop 4 s)
      else if take 5 s = str ''False'' \<and> \<not> continues_token (drop 5 s) then Some (PBool False, drop 5 s)
      else if take 2 s = str ''0x'' \<or> take 2 s = str ''0X''
      then (case parse_hex (drop 2 s) of
              Some (n, r) \<Rightarrow> Some (PInt (int n), r) | None \<Rightarrow> None)
      else if take 1 s = [45]
      then (case parse_nat (skip_ws (drop 1 s)) of
              Some (n, r) \<Rightarrow> Some (PInt (- int n), r) | None \<Rightarrow> None)
      else (case parse_nat s of Some (n, r) \<Rightarrow> Some (PInt (int n), r) | None \<Rightarrow> None))"

text \<open>The characters of a string up to the closing quote \<open>q\<close>.\<close>

fun parse_string :: "nat \<Rightarrow> pystr \<Rightarrow> pystr \<Rightarrow> (pystr \<times> pystr) option" where
  "parse_string q acc [] = None"
| "parse_string q acc (c # cs) =
     (if c = q then Some (acc, cs)
      else if c = 92 \<or> is_linebreak c then None
      else parse_string q (acc @ [c]) cs)"

text \<open>What can be a key of a dictionary: no list, dictionary or set inside.\<close>

fun hashable :: "pyval \<Rightarrow> bool" where
  "hashable (PList xs) = False"
| "hashable (PDict kvs) = False"
| "hashable (PSet xs) = False"
| "hashable (PTuple xs) = list_all hashable xs"
| "hashable v = True"

text \<open>\<open>d[k] = v\<close> on a dictionary: the value of an equal key is replaced in place.\<close>

fun py_dict_set :: "pyval \<Rightarrow> pyval \<Rightarrow> (pyval \<times> pyval) list \<Rightarrow> (pyval \<times> pyval) list" where
  "py_dict_set k v [] = [(k, v)]"
| "py_dict_set k v ((k', w) # d) =
     (if py_eq k' k then (k', v) # d else (k', w) # py_dict_set k v d)"

text \<open>
  The parser proper.  Its first argument is fuel, one element for each nested call;
  \<open>literal_eval_model\<close> supplies more than a line can use.  \<open>parse_items\<close> reads the
  items of a list or tuple up to the closing bracket and tells whether a comma was
  read; \<open>parse_pairs\<close> reads the items of a dictionary into the dictionary given.
\<close>

fun parse_value :: "nat list \<Rightarrow> pystr \<Rightarrow> (pyval \<times> pystr) option"
  and parse_items :: "nat list \<Rightarrow> nat \<Rightarrow> pystr \<Rightarrow> (pyval list \<times> bool \<times> pystr) option"
  and parse_pairs ::
    "nat list \<Rightarrow> (pyval \<times> pyval) list \<Rightarrow> pystr \<Rightarrow> ((pyval \<times> pyval) list \<times> pystr) option"
where
  "parse_value [] s = None"
| "parse_value (f # fuel) s =
     (case skip_ws s of
        [] \<Rightarrow> None
      | c # cs \<Rightarrow>
          if c = 91 then
            (case parse_items fuel 93 cs of
               Some (xs, comma, r) \<Rightarrow> Some (PList xs, r) | None \<Rightarrow> None)
          else if c = 40 then
            (case parse_items fuel 41 cs of
               Some (xs, comma, r) \<Rightarrow>
                 (case xs of
                    [x] \<Rightarrow> if comma then Some (PTuple xs, r) else Some (x, r)
                  | _ \<Rightarrow> Some (PTuple xs, r))
             | None \<Rightarrow> None)
          else if c = 123 then
            (case parse_pairs fuel [] cs of
               Some (d, r) \<Rightarrow> Some (PDict d, r) | None \<Rightarrow> None)
          else if c = 39 \<or> c = 34 then
            (case parse_string c [] cs of
               Some (t, r) \<Rightarrow> Some (PStr t, r) | None \<Rightarrow> None)
          else parse_atom (c # cs))"
| "parse_items [] close s = None"
| "parse_items (f # fuel) close s =
     (case skip_ws s of
        [] \<Rightarrow> None
      | c # cs \<Rightarrow>
          if c = close then Some ([], False, cs)
          else
            (case parse_value fuel (c # cs) of
               None \<Rightarrow> None
             | Some (v, r) \<Rightarrow>
                 (case skip_ws r of
                    [] \<Rightarrow> None
                  | c1 # r1 \<Rightarrow>
                      if c1 = close then Some ([v], False, r1)
                      else if c1 = 44 then
                        (case parse_items fuel close r1 of
                           Some (vs, comma, r2) \<Rightarrow> Some (v # vs, True, r2) | None \<Rightarrow> None)
                      else None)))"
| "parse_pairs [] d s = None"
| "parse_pairs (f # fuel) d s =
     (case skip_ws s of
        [] \<Rightarrow> None
      | c # cs \<Rightarrow>
          if c = 125 then Some (d, cs)
          else
            (case parse_value fuel (c # cs) of
               None \<Rightarrow> None
             | Some (k, r) \<Rightarrow>
                 (case skip_ws r of
                    [] \<Rightarrow> None
                  | c1 # r1 \<Rightarrow>
                      if c1 = 58 \<and> hashable k then
                        (case parse_value fuel r1 of
                           None \<Rightarrow> None
                         | Some (v, r2) \<Rightarrow>
                             (case skip_ws r2 of
                                [] \<Rightarrow> None
                              | c2 # r3 \<Rightarrow>
                                  if c2 = 125 then Some (py_dict_set k v d, r3)
                                  else if c2 = 44 then parse_pairs fuel (py_dict_set k v d) r3
                                  else None))
                      else None)))"

definition literal_eval_model :: "pystr \<Rightarrow> pyval option" where
  "literal_eval_model s =
     (case parse_value (s @ s @ [0, 0]) s of
        Some (v, r) \<Rightarrow> if skip_ws r = [] then Some v else None
      | None \<Rightarrow> None)"

text \<open>
  \<open>str()\<close> of an integer raises a \<open>ValueError\<close> when the integer has more than 4300
  decimal digits (the default of \<open>sys.set_int_max_str_digits\<close>); \<open>None\<close> stands for it.
\<close>

definition int_str_limit :: int where
  "int_str_limit = 10 ^ 4300"

definition int_str :: "int \<Rightarrow> pystr option" where
  "int_str i = (if int_str_limit \<le> \<bar>i\<bar> then None else Some (str_int i))"

text \<open>Concatenation of two conversions, raising when one of them raises.\<close>

definition cat_opt :: "pystr option \<Rightarrow> pystr option \<Rightarrow> pystr option" where
  "cat_opt a b = (case a of None \<Rightarrow> None | Some x \<Rightarrow> (case b of None \<Rightarrow> None | Some y \<Rightarrow> Some (x @ y)))"

text \<open>
  \<open>repr\<close>.  On the values of the parser above it is Python's text: a string is put
  between single quotes as it is, which is right for a string without quote, backslash
  or unprintable character.  On the other values the text is an approximation (an
  integral float below \<open>10 ^ 16\<close> as its digits and \<open>.0\<close>, other floats and complex
  numbers by a fixed word, the elements of a set in the order of the list), and no
  result below evaluates it there.  What matters to the graders is whether the
  conversion raises, and it raises exactly when an integer inside the value has too
  many digits: the conversion of a float, a complex number, a string or a byte string
  never raises.
\<close>

definition flt_repr :: "pyflt \<Rightarrow> pystr" where
  "flt_repr x =
     (case x of
        Inf s \<Rightarrow> (if s then str ''inf'' else str ''-inf'')
      | Finite q \<Rightarrow>
          (if q = of_int \<lfloor>q\<rfloor> \<and> \<bar>q\<bar> < 10 ^ 16 then str_int \<lfloor>q\<rfloor> @ str ''.0''
           else str ''float''))"

function py_repr :: "pyval \<Rightarrow> pystr option"
  and py_repr_seq :: "pyval list \<Rightarrow> pystr option"
  and py_repr_items :: "(pyval \<times> pyval) list \<Rightarrow> pystr option"
where
  "py_repr PNone = Some (str ''None'')"
| "py_repr PEllipsis = Some (str ''Ellipsis'')"
| "py_repr (PBool b) = Some (if b then str ''True'' else str ''False'')"
| "py_repr (PInt i) = int_str i"
| "py_repr (PFloat x) = Some (flt_repr x)"
| "py_repr (PComplex x y) = Some (str ''complex'')"
| "py_repr (PStr s) = Some ([39] @ s @ [39])"
| "py_repr (PBytes s) = Some ([98, 39] @ s @ [39])"
| "py_repr (PList xs) = cat_opt (Some [91]) (cat_opt (py_repr_seq xs) (Some [93]))"
| "py_repr (PTuple xs) =
     (case xs of
        [x] \<Rightarrow> cat_opt (Some [40]) (cat_opt (py_repr x) (Some [44, 41]))
      | _ \<Rightarrow> cat_opt (Some [40]) (cat_opt (py_repr_seq xs) (Some [41])))"
| "py_repr (PDict kvs) = cat_opt (Some [123]) (cat_opt (py_repr_items kvs) (Some [125]))"
| "py_repr (PSet xs) =
     (case xs of
        [] \<Rightarrow> Some (str ''set()'')
      | _ \<Rightarrow> cat_opt (Some [123]) (cat_opt (py_repr_seq xs) (Some [125])))"
| "py_repr_seq [] = Some []"
| "py_repr_seq [x] = py_repr x"
| "py_repr_seq (x # y # ys) = cat_opt (py_repr x) (cat_opt (Some [44, 32]) (py_repr_seq (y # ys)))"
| "py_repr_items [] = Some []"
| "py_repr_items [(k, v)] = cat_opt (py_repr k) (cat_opt (Some [58, 32]) (py_repr v))"
| "py_repr_items ((k, v) # kv # kvs) =
     cat_opt (py_repr k)
       (cat_opt (Some [58, 32])
          (cat_opt (py_repr v) (cat_opt (Some [44, 32]) (py_repr_items (kv # kvs)))))"
  by pat_completeness auto
termination
  by size_change

text \<open>\<open>str()\<close>, which is \<open>repr\<close> except on a string.\<close>

definition py_str :: "pyval \<Rightarrow> pystr option" where
  "py_str v = (case v of PStr s \<Rightarrow> Some s | _ \<Rightarrow> py_repr v)"

section \<open>Notions of the specification\<close>

text \<open>
  The definitions of this section follow the words of the specification; the results
  below compare them with the functions of the graders.
\<close>

subsection \<open>Evidence in a text and its position\<close>

definition starts_with :: "pystr \<Rightarrow> pystr \<Rightarrow> bool" where
  "starts_with p s = (take (length p) s = p)"

text \<open>The first position of the text from which on \<open>P\<close> holds, if there is one.\<close>

definition first_pos :: "(pystr \<Rightarrow> bool) \<Rightarrow> pystr \<Rightarrow> nat option" where
  "first_pos P s =
     (case filter (\<lambda>i. P (drop i s)) [0..<Suc (length s)] of [] \<Rightarrow> None | i # _ \<Rightarrow> Some i)"

text \<open>
  The evidence of one group: its name, whitespace, the count, whitespace, the sum,
  read from the start of the text.
\<close>

definition evidence :: "string \<Rightarrow> string \<Rightarrow> string \<Rightarrow> pystr \<Rightarrow> bool" where
  "evidence name cnt total_spent s =
     (let r1 = drop (length name) s;
          r2 = dropWhile isspace r1;
          r3 = drop (length cnt) r2;
          r4 = dropWhile isspace r3
      in starts_with (str name) s \<and> takeWhile isspace r1 \<noteq> [] \<and>
         starts_with (str cnt) r2 \<and> takeWhile isspace r3 \<noteq> [] \<and>
         starts_with (str total_spent) r4)"

definition alice_evidence :: "pystr \<Rightarrow> bool" where
  "alice_evidence = evidence ''Alice'' ''2'' ''250''"

definition bob_evidence :: "pystr \<Rightarrow> bool" where
  "bob_evidence = evidence ''Bob'' ''1'' ''200''"

text \<open>
  The search window: the text after the first occurrence of the marker when there is
  one, the whole text otherwise.
\<close>

definition window :: "pystr \<Rightarrow> pystr \<Rightarrow> pystr" where
  "window marker s =
     (case first_pos (starts_with marker) s of
        None \<Rightarrow> s
      | Some i \<Rightarrow> drop (i + length marker) s)"

subsection \<open>The two ways to pass a task, and what a result awards\<close>

text \<open>(a) A literal extracted after the header compares deep-equal to the expected value.\<close>

definition strict_pass :: "(pystr \<Rightarrow> pyval option) \<Rightarrow> pystr \<Rightarrow> pystr \<Rightarrow> pyval \<Rightarrow> bool" where
  "strict_pass lit stdout header expected =
     (let obj = extract_after_header lit stdout header in obj \<noteq> PNone \<and> compare_deep obj expected)"

text \<open>(b) The tolerant matcher of the task passes on the raw text.\<close>

definition tolerant_pass :: "string \<Rightarrow> pystr \<Rightarrow> bool" where
  "tolerant_pass key stdout =
     (if key = ''joined'' then joined_fallback stdout
      else if key = ''grouped'' then grouped_fallback stdout
      else if key = ''sorted_result'' then sorted_fallback stdout = Some True
      else if key = ''top_user'' then top_user_fallback stdout = Some True
      else False)"

text \<open>
  Passing a task in \<open>grade_pandas.py\<close>, by (a) or (b), and in \<open>grade_python_list.py\<close>,
  which has no tolerant matcher, by (a) alone.
\<close>

definition pandas_pass :: "(pystr \<Rightarrow> pyval option) \<Rightarrow> pystr \<Rightarrow> string \<Rightarrow> bool" where
  "pandas_pass lit stdout key =
     (case (map_of pandas_HEADERS key, map_of EXPECTED key) of
        (Some header, Some expected) \<Rightarrow> strict_pass lit stdout header expected \<or> tolerant_pass key stdout
      | _ \<Rightarrow> False)"

definition list_pass :: "(pystr \<Rightarrow> pyval option) \<Rightarrow> pystr \<Rightarrow> string \<Rightarrow> bool" where
  "list_pass lit stdout key =
     (case (map_of list_HEADERS key, map_of EXPECTED key) of
        (Some header, Some expected) \<Rightarrow> strict_pass lit stdout header expected
      | _ \<Rightarrow> False)"

text \<open>The points of one task and the remarks in the result of a scorer.\<close>

definition awarded ::
  "string \<Rightarrow> (int \<times> (string \<times> int) list \<times> pystr list) option \<Rightarrow> int option" where
  "awarded key r = (case r of Some (t, b, rmk) \<Rightarrow> map_of b key | None \<Rightarrow> None)"


text \<open>The four task keys, in the order of \<open>POINTS\<close>.\<close>

definition task_keys :: "string list" where
  "task_keys = [''joined'', ''grouped'', ''sorted_result'', ''top_user'']"

text \<open>
  Every task of the points table has an entry in the breakdown, and the entry is 0 or
  the points of the task.
\<close>

definition zero_or_full :: "(string \<times> int) list \<Rightarrow> (string \<times> int) list \<Rightarrow> bool" where
  "zero_or_full points b = list_all (\<lambda>(k, p). map_of b k = Some 0 \<or> map_of b k = Some p) points"

text \<open>
  The remark of \<open>grade_python_list.py\<close> for a task that does not pass can be written:
  for every task, the task passes or both the expected and the extracted value have a
  text.
\<close>

definition list_formats ::
  "(pystr \<Rightarrow> pyval option) \<Rightarrow> (pyval \<Rightarrow> pystr option) \<Rightarrow> pystr \<Rightarrow> bool" where
  "list_formats lit fmt stdout =
     list_all
       (\<lambda>key.
          case (map_of list_HEADERS key, map_of EXPECTED key) of
            (Some header, Some expected) \<Rightarrow>
              strict_pass lit stdout header expected \<or>
              (fmt expected \<noteq> None \<and> fmt (extract_after_header lit stdout header) \<noteq> None)
          | _ \<Rightarrow> False)
       task_keys"

subsection \<open>Shapes of values\<close>

datatype shape = Scalar | ListShape | TupleShape | MappingShape | SetShape

fun shape_of :: "pyval \<Rightarrow> shape" where
  "shape_of (PList xs) = ListShape"
| "shape_of (PTuple xs) = TupleShape"
| "shape_of (PDict kvs) = MappingShape"
| "shape_of (PSet xs) = SetShape"
| "shape_of v = Scalar"

text \<open>
  The keys of a dictionary are hashable and no two of them are equal.  \<open>canon\<close> maps
  equal hashable values to the same value.
\<close>

fun dict_keys_ok :: "(pyval \<times> pyval) list \<Rightarrow> bool" where
  "dict_keys_ok [] = True"
| "dict_keys_ok ((k, v) # d) =
     (hashable k \<and> list_all (\<lambda>(k', w). \<not> py_eq k' k) d \<and> dict_keys_ok d)"

fun canon :: "pyval \<Rightarrow> pyval" where
  "canon (PBool b) = PComplex (Finite (if b then 1 else 0)) (Finite 0)"
| "canon (PInt i) = PComplex (Finite (of_int i)) (Finite 0)"
| "canon (PFloat x) = PComplex x (Finite 0)"
| "canon (PTuple xs) = PTuple (map canon xs)"
| "canon v = v"

subsection \<open>Letter case\<close>

definition same_up_to_case :: "pystr \<Rightarrow> pystr \<Rightarrow> bool" where
  "same_up_to_case s t = (map ascii_lower s = map ascii_lower t)"

text \<open>A pattern made of literals under \<open>re.IGNORECASE\<close> and of \<open>\s\<close> only.\<close>

fun case_blind_atom :: "atom \<Rightarrow> bool" where
  "case_blind_atom (LitI p) = True"
| "case_blind_atom Space = True"
| "case_blind_atom a = False"

definition case_blind :: "regex \<Rightarrow> bool" where
  "case_blind r = list_all (\<lambda>(a, q). case_blind_atom a) r"

section \<open>Sample outputs\<close>

text \<open>Scenario A of the specification: the header line and the literal.\<close>

definition scenario_A :: pystr where
  "scenario_A = list_joined_header @ [10] @
     str ''[{'name': 'Alice', 'total': 100}, {'name': 'Alice', 'total': 150}, {'name': 'Bob', 'total': 200}]''"

text \<open>Two rows of a printed table, in the two orders.\<close>

definition rows_alice_bob :: pystr where
  "rows_alice_bob = str ''Alice 2 250'' @ [10] @ str ''Bob 1 200''"

definition rows_bob_alice :: pystr where
  "rows_bob_alice = str ''Bob 1 200'' @ [10] @ str ''Alice 2 250''"

text \<open>
  A printed output with every piece of evidence, and the same output with the names
  and labels in capitals.
\<close>

definition printed_output :: pystr where
  "printed_output =
     str ''Alice 100'' @ [10] @ str ''Alice 150'' @ [10] @ str ''Bob 200'' @ [10] @
     str ''Alice 2 250'' @ [10] @ str ''Bob 1 200'' @ [10] @
     str ''total_spent 250'' @ [10] @ str ''Name: Alice''"

definition printed_output_capitals :: pystr where
  "printed_output_capitals =
     str ''ALICE 100'' @ [10] @ str ''ALICE 150'' @ [10] @ str ''BOB 200'' @ [10] @
     str ''ALICE 2 250'' @ [10] @ str ''BOB 1 200'' @ [10] @
     str ''TOTAL_SPENT 250'' @ [10] @ str ''NAME: ALICE''"

text \<open>
  The header of the join task and, on the next line, a hexadecimal integer of 5000
  digits \<open>f\<close>; its value is \<open>16 ^ 5000 - 1\<close>, a number of 6021 decimal digits.
\<close>

definition long_hex_literal :: pystr where
  "long_hex_literal = str ''0x'' @ replicate 5000 102"

definition long_hex_output :: pystr where
  "long_hex_output = list_joined_header @ [10] @ long_hex_literal"

definition long_hex_value :: int where
  "long_hex_value = 16 ^ 5000 - 1"

text \<open>A text with the header of the list grader twice, blank lines and two literals.\<close>

definition two_headers :: pystr where
  "two_headers =
     str ''intro'' @ [10] @ str ''  '' @ list_grouped_header @ str ''  '' @ [10] @
     str ''   '' @ [10] @ [10] @ str '' [1, 2] '' @ [10] @
     list_grouped_header @ [10] @ str ''[3]''"

section \<open>The result of the scorers in closed form\<close>

lemma section_after_eq:
  "section_after h s = Some (case find_sub h [] s of None \<Rightarrow> s | Some (a, b) \<Rightarrow> b)"
  by (simp add: section_after_def str_in_def split1_def index_def split: option.splits)

lemma sorted_fallback_total: "\<exists>b. sorted_fallback s = Some b"
  by (simp add: sorted_fallback_def section_after_eq)

lemma top_user_fallback_total: "\<exists>b. top_user_fallback s = Some b"
  by (simp add: top_user_fallback_def section_after_eq)

lemma pandas_score_eq:
  assumes "map_of parsed key = Some obj" "map_of EXPECTED key = Some expected"
    "map_of pandas_POINTS key = Some p" "fallback stdout = Some ok"
  shows "pandas_score key fallback stdout parsed st =
     Some (if (obj \<noteq> PNone \<and> compare_deep obj expected) \<or> ok
           then (AList.update key p (fst st), snd st)
           else (fst st, snd st @ [str key @ str '' mismatch'']))"
  using assms by (simp add: pandas_score_def)

lemma pandas_parsed_eq:
  "pandas_parsed lit stdout =
     [(''joined'', extract_after_header lit stdout pandas_joined_header),
      (''grouped'', extract_after_header lit stdout pandas_grouped_header),
      (''sorted_result'', extract_after_header lit stdout pandas_sorted_header),
      (''top_user'', extract_after_header lit stdout pandas_top_header)]"
  by (simp add: pandas_parsed_def pandas_HEADERS_def)

lemma zero_breakdown_pandas:
  "zero_breakdown pandas_POINTS =
     [(''joined'', 0), (''grouped'', 0), (''sorted_result'', 0), (''top_user'', 0)]"
  by (simp add: zero_breakdown_def pandas_POINTS_def)

lemma zero_breakdown_list:
  "zero_breakdown list_POINTS =
     [(''joined'', 0), (''grouped'', 0), (''sorted_result'', 0), (''top_user'', 0)]"
  by (simp add: zero_breakdown_def list_POINTS_def)

lemma pandas_pass_simps:
  "pandas_pass lit stdout ''joined'' =
     (strict_pass lit stdout pandas_joined_header expected_joined \<or> joined_fallback stdout)"
  "pandas_pass lit stdout ''grouped'' =
     (strict_pass lit stdout pandas_grouped_header expected_grouped \<or> grouped_fallback stdout)"
  "pandas_pass lit stdout ''sorted_result'' =
     (strict_pass lit stdout pandas_sorted_header expected_sorted_result \<or> sorted_fallback stdout = Some True)"
  "pandas_pass lit stdout ''top_user'' =
     (strict_pass lit stdout pandas_top_header expected_top_user \<or> top_user_fallback stdout = Some True)"
  by (simp_all add: pandas_pass_def pandas_HEADERS_def EXPECTED_def tolerant_pass_def)

lemma pandas_grade_form:
  "pandas_grade_from_stdout lit stdout =
     Some (sum_list (map (\<lambda>(k, p). if pandas_pass lit stdout k then p else 0) pandas_POINTS),
           map (\<lambda>(k, p). (k, if pandas_pass lit stdout k then p else 0)) pandas_POINTS,
           concat (map (\<lambda>(k, p). if pandas_pass lit stdout k then [] else [str k @ str '' mismatch''])
                    pandas_POINTS))"
proof -
  obtain sb where sb: "sorted_fallback stdout = Some sb"
    using sorted_fallback_total by blast
  obtain tb where tb: "top_user_fallback stdout = Some tb"
    using top_user_fallback_total by blast
  have E: "map_of EXPECTED ''joined'' = Some expected_joined"
     "map_of EXPECTED ''grouped'' = Some expected_grouped"
     "map_of EXPECTED ''sorted_result'' = Some expected_sorted_result"
     "map_of EXPECTED ''top_user'' = Some expected_top_user"
    by (simp_all add: EXPECTED_def)
  have P: "map_of pandas_POINTS ''joined'' = Some 5"
     "map_of pandas_POINTS ''grouped'' = Some 10"
     "map_of pandas_POINTS ''sorted_result'' = Some 20"
     "map_of pandas_POINTS ''top_user'' = Some 5"
    by (simp_all add: pandas_POINTS_def)
  have s1: "pandas_score ''joined'' (\<lambda>s. Some (joined_fallback s)) stdout (pandas_parsed lit stdout) st =
     Some (if pandas_pass lit stdout ''joined''
           then (AList.update ''joined'' 5 (fst st), snd st)
           else (fst st, snd st @ [str ''joined'' @ str '' mismatch'']))" for st
    by (subst pandas_score_eq[where fallback="\<lambda>s. Some (joined_fallback s)" and ok="joined_fallback stdout", OF _ E(1) P(1)])
       (simp_all add: pandas_parsed_eq pandas_pass_simps strict_pass_def Let_def)
  have s2: "pandas_score ''grouped'' (\<lambda>s. Some (grouped_fallback s)) stdout (pandas_parsed lit stdout) st =
     Some (if pandas_pass lit stdout ''grouped''
           then (AList.update ''grouped'' 10 (fst st), snd st)
           else (fst st, snd st @ [str ''grouped'' @ str '' mismatch'']))" for st
    by (subst pandas_score_eq[where fallback="\<lambda>s. Some (grouped_fallback s)" and ok="grouped_fallback stdout", OF _ E(2) P(2)])
       (simp_all add: pandas_parsed_eq pandas_pass_simps strict_pass_def Let_def)
  have s3: "pandas_score ''sorted_result'' sorted_fallback stdout (pandas_parsed lit stdout) st =
     Some (if pandas_pass lit stdout ''sorted_result''
           then (AList.update ''sorted_result'' 20 (fst st), snd st)
           else (fst st, snd st @ [str ''sorted_result'' @ str '' mismatch'']))" for st
    by (subst pandas_score_eq[where fallback=sorted_fallback and ok=sb, OF _ E(3) P(3) sb])
       (simp_all add: pandas_parsed_eq pandas_pass_simps strict_pass_def Let_def sb)
  have s4: "pandas_score ''top_user'' top_user_fallback stdout (pandas_parsed lit stdout) st =
     Some (if pandas_pass lit stdout ''top_user''
           then (AList.update ''top_user'' 5 (fst st), snd st)
           else (fst st, snd st @ [str ''top_user'' @ str '' mismatch'']))" for st
    by (subst pandas_score_eq[where fallback=top_user_fallback and ok=tb, OF _ E(4) P(4) tb])
       (simp_all add: pandas_parsed_eq pandas_pass_simps strict_pass_def Let_def tb)
  show ?thesis
    unfolding pandas_grade_from_stdout_def Let_def s1 s2 s3 s4 zero_breakdown_pandas
    by (simp add: pandas_POINTS_def)
qed


lemma list_pass_simps:
  "list_pass lit stdout ''joined'' = strict_pass lit stdout list_joined_header expected_joined"
  "list_pass lit stdout ''grouped'' = strict_pass lit stdout list_grouped_header expected_grouped"
  "list_pass lit stdout ''sorted_result'' =
     strict_pass lit stdout list_sorted_header expected_sorted_result"
  "list_pass lit stdout ''top_user'' = strict_pass lit stdout list_top_header expected_top_user"
  by (simp_all add: list_pass_def list_HEADERS_def EXPECTED_def)

lemma list_parsed_eq:
  "list_parsed lit stdout =
     ([(''joined'', extract_after_header lit stdout list_joined_header),
       (''grouped'', extract_after_header lit stdout list_grouped_header),
       (''sorted_result'', extract_after_header lit stdout list_sorted_header),
       (''top_user'', extract_after_header lit stdout list_top_header)],
      concat (map (\<lambda>(k, h). if extract_after_header lit stdout h = PNone
                              then [str ''Missing or unparsable output for: '' @ str k] else [])
                list_HEADERS))"
  by (simp add: list_parsed_def list_HEADERS_def Let_def)

lemma list_score_key_eq:
  assumes "map_of parsed key = Some obj" "map_of EXPECTED key = Some e"
    "map_of list_POINTS key = Some p"
  shows "list_score_key fmt parsed key st =
     (if obj \<noteq> PNone \<and> compare_deep obj e
      then Some (AList.update key p (fst st), snd st)
      else (case fmt e of
              None \<Rightarrow> None
            | Some a \<Rightarrow>
                (case fmt obj of
                   None \<Rightarrow> None
                 | Some b \<Rightarrow>
                     Some (fst st, snd st @ [str key @ str '': expected '' @ a @ str '', got '' @ b]))))"
  using assms by (simp add: list_score_key_def split: option.splits)

lemma list_formats_eq:
  "list_formats lit fmt stdout \<longleftrightarrow>
     (list_pass lit stdout ''joined'' \<or>
        (fmt expected_joined \<noteq> None \<and>
         fmt (extract_after_header lit stdout list_joined_header) \<noteq> None)) \<and>
     (list_pass lit stdout ''grouped'' \<or>
        (fmt expected_grouped \<noteq> None \<and>
         fmt (extract_after_header lit stdout list_grouped_header) \<noteq> None)) \<and>
     (list_pass lit stdout ''sorted_result'' \<or>
        (fmt expected_sorted_result \<noteq> None \<and>
         fmt (extract_after_header lit stdout list_sorted_header) \<noteq> None)) \<and>
     (list_pass lit stdout ''top_user'' \<or>
        (fmt expected_top_user \<noteq> None \<and>
         fmt (extract_after_header lit stdout list_top_header) \<noteq> None))"
  unfolding list_formats_def task_keys_def
  by (simp add: list_HEADERS_def EXPECTED_def list_pass_simps)

lemma list_score_form:
  assumes M: "map_of parsed ''joined'' = Some o1" "map_of parsed ''grouped'' = Some o2"
    "map_of parsed ''sorted_result'' = Some o3" "map_of parsed ''top_user'' = Some o4"
  defines "p1 \<equiv> o1 \<noteq> PNone \<and> compare_deep o1 expected_joined"
    and "p2 \<equiv> o2 \<noteq> PNone \<and> compare_deep o2 expected_grouped"
    and "p3 \<equiv> o3 \<noteq> PNone \<and> compare_deep o3 expected_sorted_result"
    and "p4 \<equiv> o4 \<noteq> PNone \<and> compare_deep o4 expected_top_user"
  shows "list_score fmt parsed (map fst list_POINTS)
           ([(''joined'', 0), (''grouped'', 0), (''sorted_result'', 0), (''top_user'', 0)], rs) =
     (if (p1 \<or> (fmt expected_joined \<noteq> None \<and> fmt o1 \<noteq> None)) \<and>
         (p2 \<or> (fmt expected_grouped \<noteq> None \<and> fmt o2 \<noteq> None)) \<and>
         (p3 \<or> (fmt expected_sorted_result \<noteq> None \<and> fmt o3 \<noteq> None)) \<and>
         (p4 \<or> (fmt expected_top_user \<noteq> None \<and> fmt o4 \<noteq> None))
      then Some ([(''joined'', if p1 then 15 else 0), (''grouped'', if p2 then 30 else 0),
                  (''sorted_result'', if p3 then 15 else 0), (''top_user'', if p4 then 10 else 0)],
                 rs @
                 (if p1 then [] else [str ''joined'' @ str '': expected '' @ the (fmt expected_joined) @
                                      str '', got '' @ the (fmt o1)]) @
                 (if p2 then [] else [str ''grouped'' @ str '': expected '' @ the (fmt expected_grouped) @
                                      str '', got '' @ the (fmt o2)]) @
                 (if p3 then [] else [str ''sorted_result'' @ str '': expected '' @
                                      the (fmt expected_sorted_result) @ str '', got '' @ the (fmt o3)]) @
                 (if p4 then [] else [str ''top_user'' @ str '': expected '' @ the (fmt expected_top_user) @
                                      str '', got '' @ the (fmt o4)]))
      else None)"
proof -
  have E: "map_of EXPECTED ''joined'' = Some expected_joined"
     "map_of EXPECTED ''grouped'' = Some expected_grouped"
     "map_of EXPECTED ''sorted_result'' = Some expected_sorted_result"
     "map_of EXPECTED ''top_user'' = Some expected_top_user"
    by (simp_all add: EXPECTED_def)
  have P: "map_of list_POINTS ''joined'' = Some 15"
     "map_of list_POINTS ''grouped'' = Some 30"
     "map_of list_POINTS ''sorted_result'' = Some 15"
     "map_of list_POINTS ''top_user'' = Some 10"
    by (simp_all add: list_POINTS_def)
  have k: "map fst list_POINTS = [''joined'', ''grouped'', ''sorted_result'', ''top_user'']"
    by (simp add: list_POINTS_def)
  have s1: "list_score_key fmt parsed ''joined'' st =
      (if p1 then Some (AList.update ''joined'' 15 (fst st), snd st)
       else if fmt expected_joined \<noteq> None \<and> fmt o1 \<noteq> None
       then Some (fst st, snd st @ [str ''joined'' @ str '': expected '' @ the (fmt expected_joined) @
                                      str '', got '' @ the (fmt o1)])
       else None)" for st
    unfolding list_score_key_eq[OF M(1) E(1) P(1)] p1_def by (simp split: option.splits)
  have s2: "list_score_key fmt parsed ''grouped'' st =
      (if p2 then Some (AList.update ''grouped'' 30 (fst st), snd st)
       else if fmt expected_grouped \<noteq> None \<and> fmt o2 \<noteq> None
       then Some (fst st, snd st @ [str ''grouped'' @ str '': expected '' @ the (fmt expected_grouped) @
                                      str '', got '' @ the (fmt o2)])
       else None)" for st
    unfolding list_score_key_eq[OF M(2) E(2) P(2)] p2_def by (simp split: option.splits)
  have s3: "list_score_key fmt parsed ''sorted_result'' st =
      (if p3 then Some (AList.update ''sorted_result'' 15 (fst st), snd st)
       else if fmt expected_sorted_result \<noteq> None \<and> fmt o3 \<noteq> None
       then Some (fst st, snd st @ [str ''sorted_result'' @ str '': expected '' @
                                      the (fmt expected_sorted_result) @ str '', got '' @ the (fmt o3)])
       else None)" for st
    unfolding list_score_key_eq[OF M(3) E(3) P(3)] p3_def by (simp split: option.splits)
  have s4: "list_score_key fmt parsed ''top_user'' st =
      (if p4 then Some (AList.update ''top_user'' 10 (fst st), snd st)
       else if fmt expected_top_user \<noteq> None \<and> fmt o4 \<noteq> None
       then Some (fst st, snd st @ [str ''top_user'' @ str '': expected '' @ the (fmt expected_top_user) @
                                      str '', got '' @ the (fmt o4)])
       else None)" for st
    unfolding list_score_key_eq[OF M(4) E(4) P(4)] p4_def by (simp split: option.splits)
  show ?thesis
    unfolding k list_score.simps s1 s2 s3 s4
    by (cases p1; cases p2; cases p3; cases p4) simp_all
qed

lemma list_grade_form:
  "list_grade_from_stdout lit fmt stdout =
     (if list_formats lit fmt stdout
      then Some (sum_list (map (\<lambda>(k, p). if list_pass lit stdout k then p else 0) list_POINTS),
           map (\<lambda>(k, p). (k, if list_pass lit stdout k then p else 0)) list_POINTS,
           concat (map (\<lambda>(k, h). if extract_after_header lit stdout h = PNone
                              then [str ''Missing or unparsable output for: '' @ str k] else [])
                list_HEADERS) @
           concat (map (\<lambda>(k, h). if list_pass lit stdout k then []
                              else [str k @ str '': expected '' @ the (fmt (the (map_of EXPECTED k))) @
                                    str '', got '' @ the (fmt (extract_after_header lit stdout h))])
                list_HEADERS))
      else None)"
proof -
  define parsed where "parsed = fst (list_parsed lit stdout)"
  define rs where "rs = snd (list_parsed lit stdout)"
  have lp: "list_parsed lit stdout = (parsed, rs)"
    by (simp add: parsed_def rs_def)
  have M: "map_of parsed ''joined'' = Some (extract_after_header lit stdout list_joined_header)"
     "map_of parsed ''grouped'' = Some (extract_after_header lit stdout list_grouped_header)"
     "map_of parsed ''sorted_result'' = Some (extract_after_header lit stdout list_sorted_header)"
     "map_of parsed ''top_user'' = Some (extract_after_header lit stdout list_top_header)"
    by (simp_all add: parsed_def list_parsed_eq)
  have rs: "rs = concat (map (\<lambda>(k, h). if extract_after_header lit stdout h = PNone
                              then [str ''Missing or unparsable output for: '' @ str k] else [])
                list_HEADERS)"
    by (simp add: rs_def list_parsed_eq)
  have g: "list_grade_from_stdout lit fmt stdout =
     (case list_score fmt parsed (map fst list_POINTS)
             ([(''joined'', 0), (''grouped'', 0), (''sorted_result'', 0), (''top_user'', 0)], rs) of
        None \<Rightarrow> None
      | Some st \<Rightarrow> Some (sum_list (map snd (fst st)), fst st, snd st))"
    unfolding list_grade_from_stdout_def Let_def zero_breakdown_list lp prod.case
    by (simp split: option.splits)
  show ?thesis
    unfolding g list_score_form[OF M] list_formats_eq list_pass_simps strict_pass_def Let_def rs
    by (simp add: list_POINTS_def list_HEADERS_def EXPECTED_def list_pass_simps strict_pass_def Let_def)
qed

section \<open>Texts without a header\<close>

lemma scan_header_absent:
  "(\<forall>l\<in>set ls. strip l \<noteq> header) \<Longrightarrow> scan_header lit header ls = PNone"
  by (induction ls) auto

lemma set_strip: "set (strip s) \<subseteq> set s"
proof -
  have "set (strip s) \<subseteq> set (dropWhile isspace s)"
    unfolding strip_def set_rev using set_dropWhileD[of _ isspace "rev (dropWhile isspace s)"]
    by auto
  also have "\<dots> \<subseteq> set s"
    using set_dropWhileD[of _ isspace s] by auto
  finally show ?thesis .
qed

lemma set_splitlines_from:
  "l \<in> set (splitlines_from cur s) \<Longrightarrow> set l \<subseteq> set cur \<union> set s"
proof (induction cur s rule: splitlines_from.induct)
  case (1 cur)
  then show ?case by (simp split: if_splits)
next
  case (2 cur c cs)
  show ?case
  proof (cases "is_linebreak c")
    case True
    then have "l = cur \<or> l \<in> set (splitlines_from [] (if c = 13 \<and> take 1 cs = [10] then drop 1 cs else cs))"
      using 2(3) by simp
    then show ?thesis
    proof
      assume "l = cur" then show ?thesis by auto
    next
      assume "l \<in> set (splitlines_from [] (if c = 13 \<and> take 1 cs = [10] then drop 1 cs else cs))"
      then have "set l \<subseteq> set (if c = 13 \<and> take 1 cs = [10] then drop 1 cs else cs)"
        using 2(1)[OF True] by simp
      also have "\<dots> \<subseteq> set cs"
        using set_drop_subset[of 1 cs] by auto
      finally show ?thesis by auto
    qed
  next
    case False
    then have "l \<in> set (splitlines_from (cur @ [c]) cs)"
      using 2(3) by simp
    then show ?thesis using 2(2)[OF False] by auto
  qed
qed

text \<open>A header with a character that the text does not have is not found.\<close>

lemma extract_absent_char:
  assumes "c \<in> set header" "c \<notin> set stdout"
  shows "extract_after_header lit stdout header = PNone"
proof -
  have "strip l \<noteq> header" if "l \<in> set (splitlines stdout)" for l
  proof
    assume "strip l = header"
    then have "c \<in> set (strip l)" using assms(1) by simp
    then have "c \<in> set l" using set_strip by blast
    then show False
      using set_splitlines_from[of l "[]" stdout] that assms(2) by (auto simp: splitlines_def)
  qed
  then show ?thesis
    by (simp add: extract_after_header_def scan_header_absent)
qed

lemma str_Alice_rows:
  "rows_alice_bob = [65, 108, 105, 99, 101, 32, 50, 32, 50, 53, 48, 10, 66, 111, 98, 32, 49, 32, 50, 48, 48]"
  "rows_bob_alice = [66, 111, 98, 32, 49, 32, 50, 48, 48, 10, 65, 108, 105, 99, 101, 32, 50, 32, 50, 53, 48]"
  by (simp_all add: rows_alice_bob_def rows_bob_alice_def str_def)

lemma header_has_mark:
  "9989 \<in> set list_joined_header" "9989 \<in> set list_grouped_header"
  "9989 \<in> set list_sorted_header" "127942 \<in> set list_top_header"
  "226 \<in> set pandas_joined_header" "226 \<in> set pandas_grouped_header"
  "226 \<in> set pandas_sorted_header" "240 \<in> set pandas_top_header"
  by (simp_all add: list_joined_header_def list_grouped_header_def list_sorted_header_def
      list_top_header_def pandas_joined_header_def pandas_grouped_header_def
      pandas_sorted_header_def pandas_top_header_def pandas_mark_def pandas_cup_def)

lemma extract_rows_alice_bob:
  "extract_after_header lit rows_alice_bob list_joined_header = PNone"
  "extract_after_header lit rows_alice_bob list_grouped_header = PNone"
  "extract_after_header lit rows_alice_bob list_sorted_header = PNone"
  "extract_after_header lit rows_alice_bob list_top_header = PNone"
  "extract_after_header lit rows_alice_bob pandas_grouped_header = PNone"
  by (rule extract_absent_char[OF header_has_mark(1)], simp add: str_Alice_rows)
     (rule extract_absent_char[OF header_has_mark(2)], simp add: str_Alice_rows,
      rule extract_absent_char[OF header_has_mark(3)], simp add: str_Alice_rows,
      rule extract_absent_char[OF header_has_mark(4)], simp add: str_Alice_rows,
      rule extract_absent_char[OF header_has_mark(6)], simp add: str_Alice_rows)

lemma extract_rows_bob_alice:
  "extract_after_header lit rows_bob_alice list_joined_header = PNone"
  "extract_after_header lit rows_bob_alice list_grouped_header = PNone"
  "extract_after_header lit rows_bob_alice list_sorted_header = PNone"
  "extract_after_header lit rows_bob_alice list_top_header = PNone"
  by (rule extract_absent_char[OF header_has_mark(1)], simp add: str_Alice_rows)
     (rule extract_absent_char[OF header_has_mark(2)], simp add: str_Alice_rows,
      rule extract_absent_char[OF header_has_mark(3)], simp add: str_Alice_rows,
      rule extract_absent_char[OF header_has_mark(4)], simp add: str_Alice_rows)

section \<open>The text of a value\<close>

lemma int_str_limit_ge: "10000 \<le> int_str_limit"
proof -
  have "(10::int) ^ 4 \<le> 10 ^ 4300"
    by (rule power_increasing) simp_all
  then have "(10::int) ^ 4 \<le> int_str_limit"
    by (simp only: int_str_limit_def)
  moreover have "(10::int) ^ 4 = 10000"
    by simp
  ultimately show ?thesis
    by (simp only:)
qed

lemma int_str_small: "\<bar>i\<bar> < 10000 \<Longrightarrow> int_str i = Some (str_int i)"
  using int_str_limit_ge by (simp add: int_str_def)

lemma py_str_expected:
  "py_str expected_joined \<noteq> None" "py_str expected_grouped \<noteq> None"
  "py_str expected_sorted_result \<noteq> None" "py_str expected_top_user \<noteq> None"
  by (simp_all add: py_str_def expected_joined_def expected_grouped_def
      expected_sorted_result_def expected_top_user_def joined_row_def order_of_def cat_opt_def
      int_str_small)

lemma py_str_PNone: "py_str PNone = Some (str ''None'')"
  by (simp add: py_str_def)

lemma list_formats_rows:
  "list_formats lit py_str rows_alice_bob" "list_formats lit py_str rows_bob_alice"
  by (simp_all add: list_formats_eq extract_rows_alice_bob extract_rows_bob_alice py_str_expected
      py_str_PNone)

section \<open>An integer too long to print\<close>

lemma hex_value_replicate:
  "int (hex_value acc (replicate n 102)) + 1 = (int acc + 1) * 16 ^ n"
  by (induction n arbitrary: acc) (simp_all add: hex_digit_def is_digit_def algebra_simps)

lemma hex_value_replicate_0: "int (hex_value 0 (replicate n 102)) = 16 ^ n - 1"
  using hex_value_replicate[of 0 n] by simp

lemma power_10_le_16:
  assumes "n < m"
  shows "(10::int) ^ n \<le> 16 ^ m - 1"
proof -
  obtain k where m: "m = Suc k" and nk: "n \<le> k"
    using assms by (cases m) auto
  have "(10::int) ^ n \<le> 16 ^ n"
    by (rule power_mono) simp_all
  also have "\<dots> \<le> 16 ^ k"
    using nk by (rule power_increasing) simp
  also have "\<dots> \<le> 16 ^ m - 1"
  proof -
    have "(1::int) \<le> 16 ^ k" by simp
    then show ?thesis by (simp add: m)
  qed
  finally show ?thesis .
qed

lemma py_str_long_hex_value: "py_str (PInt long_hex_value) = None"
proof -
  have "(10::int) ^ 4300 \<le> 16 ^ 5000 - 1"
    by (rule power_10_le_16) simp
  then have "int_str_limit \<le> long_hex_value"
    by (simp only: int_str_limit_def long_hex_value_def)
  then have "int_str_limit \<le> \<bar>long_hex_value\<bar>"
    by (rule order_trans) (rule abs_ge_self)
  then show ?thesis
    by (simp add: py_str_def int_str_def)
qed

lemma literal_eval_hex:
  assumes "hs \<noteq> []" "\<forall>c\<in>set hs. is_hex c"
  shows "literal_eval_model (48 # 120 # hs) = Some (PInt (int (hex_value 0 hs)))"
proof -
  have t: "takeWhile is_hex hs = hs" "dropWhile is_hex hs = []"
    using assms(2) by simp_all
  have h: "parse_hex hs = Some (hex_value 0 hs, [])"
    using assms(1) by (simp add: parse_hex_def t continues_token_def)
  have a: "parse_atom (48 # 120 # hs) = Some (PInt (int (hex_value 0 hs)), [])"
    by (simp add: parse_atom_def str_def h)
  show ?thesis
    by (simp add: literal_eval_model_def skip_ws_def a)
qed

lemma long_hex_literal_value: "long_hex_literal = 48 # 120 # replicate 5000 102"
  by (simp add: long_hex_literal_def str_def)

lemma literal_eval_long_hex: "literal_eval_model long_hex_literal = Some (PInt long_hex_value)"
proof -
  have "literal_eval_model (48 # 120 # replicate 5000 102) =
          Some (PInt (int (hex_value 0 (replicate 5000 102))))"
    by (rule literal_eval_hex) (simp_all add: is_hex_def)
  moreover have "int (hex_value 0 (replicate 5000 102)) = long_hex_value"
    unfolding long_hex_value_def by (rule hex_value_replicate_0)
  ultimately show ?thesis
    by (simp only: long_hex_literal_value)
qed

lemma strip_id:
  assumes "s \<noteq> []" "\<not> isspace (hd s)" "\<not> isspace (last s)"
  shows "strip s = s"
proof -
  have 1: "dropWhile isspace s = s"
    using assms by (cases s) simp_all
  obtain xs x where s: "s = xs @ [x]"
    using assms(1) by (metis rev_exhaust)
  have 2: "dropWhile isspace (rev s) = rev s"
    using assms(3) by (simp add: s)
  show ?thesis
    by (simp add: strip_def 1 2)
qed

lemma splitlines_from_no_break:
  "\<forall>c\<in>set xs. \<not> is_linebreak c \<Longrightarrow>
   splitlines_from cur (xs @ rest) = splitlines_from (cur @ xs) rest"
  by (induction xs arbitrary: cur) simp_all

lemma list_joined_header_value:
  "list_joined_header = [9989, 32, 74, 111, 105, 110, 101, 100, 32, 82, 101, 115, 117, 108, 116, 58]"
  by (simp add: list_joined_header_def str_def)

lemma no_break_long_hex:
  "\<forall>c\<in>set list_joined_header. \<not> is_linebreak c" "\<forall>c\<in>set long_hex_literal. \<not> is_linebreak c"
  by (simp_all add: list_joined_header_value long_hex_literal_value is_linebreak_def)

lemma splitlines_long_hex_output:
  "splitlines long_hex_output = [list_joined_header, long_hex_literal]"
proof -
  have "splitlines long_hex_output = splitlines_from list_joined_header (10 # long_hex_literal)"
    unfolding splitlines_def long_hex_output_def
    using splitlines_from_no_break[OF no_break_long_hex(1), of "[]" "[10] @ long_hex_literal"]
    by simp
  also have "\<dots> = list_joined_header # splitlines_from [] (long_hex_literal @ [])"
    by (simp add: is_linebreak_def)
  also have "splitlines_from [] (long_hex_literal @ []) = splitlines_from ([] @ long_hex_literal) []"
    by (rule splitlines_from_no_break[OF no_break_long_hex(2)])
  also have "\<dots> = [long_hex_literal]"
    by (simp add: long_hex_literal_value)
  finally show ?thesis .
qed

lemma strip_long_hex:
  "strip list_joined_header = list_joined_header" "strip long_hex_literal = long_hex_literal"
  by (rule strip_id; simp add: list_joined_header_value isspace_def)
     (rule strip_id; simp add: long_hex_literal_value isspace_def)

lemma extract_long_hex_joined:
  "extract_after_header lit long_hex_output list_joined_header =
     (case lit long_hex_literal of Some v \<Rightarrow> v | None \<Rightarrow> PNone)"
proof -
  have "long_hex_literal \<noteq> []"
    by (simp add: long_hex_literal_value)
  then show ?thesis
    by (simp add: extract_after_header_def splitlines_long_hex_output strip_long_hex Let_def
        safe_literal_eval_def)
qed

lemma extract_long_hex_model:
  "extract_after_header literal_eval_model long_hex_output list_joined_header = PInt long_hex_value"
  by (simp add: extract_long_hex_joined literal_eval_long_hex)

lemma not_list_formats_long_hex: "\<not> list_formats literal_eval_model py_str long_hex_output"
  by (simp add: list_formats_eq list_pass_simps strict_pass_def extract_long_hex_model
      py_str_long_hex_value compare_deep_def num_eq_def expected_joined_def)

section \<open>Invariants of the scorers\<close>

lemma pandas_grade_props:
  "\<exists>t b rmk. pandas_grade_from_stdout lit stdout = Some (t, b, rmk) \<and>
     map fst b = task_keys \<and>
     zero_or_full pandas_POINTS b \<and> t = sum_list (map snd b) \<and> 0 \<le> t \<and> t \<le> 40"
  by (simp add: pandas_grade_form pandas_POINTS_def zero_or_full_def task_keys_def)

lemma list_grade_props:
  "list_formats lit fmt stdout \<Longrightarrow>
   \<exists>t b rmk. list_grade_from_stdout lit fmt stdout = Some (t, b, rmk) \<and>
     map fst b = task_keys \<and>
     zero_or_full list_POINTS b \<and> t = sum_list (map snd b) \<and> 0 \<le> t \<and> t \<le> 70"
  by (simp add: list_grade_form list_POINTS_def zero_or_full_def task_keys_def)

lemma list_grade_raises:
  "\<not> list_formats lit fmt stdout \<Longrightarrow> list_grade_from_stdout lit fmt stdout = None"
  by (simp add: list_grade_form)

lemma list_grade_long_hex:
  "list_grade_from_stdout literal_eval_model py_str long_hex_output = None"
  by (rule list_grade_raises) (rule not_list_formats_long_hex)

lemma main_score_failure:
  "code \<noteq> 0 \<Longrightarrow>
   main_score points grade stdout stderr code =
     Some (0, zero_breakdown points, [failure_remark code stderr])"
  by (simp add: main_score_def)

lemma main_body_failure:
  "code \<noteq> 0 \<Longrightarrow>
   main_body points grade sid fname stdout stderr code =
     Some \<lparr>student_id = sid, filename = fname, total = 0, breakdown = zero_breakdown points,
           remarks = failure_remark code stderr, raw_stdout = stdout, raw_stderr = stderr\<rparr>"
  by (simp add: main_body_def main_score_failure)

lemma main_body_success:
  "grade stdout = Some (t, b, rmk) \<Longrightarrow>
   main_body points grade sid fname stdout stderr 0 =
     Some \<lparr>student_id = sid, filename = fname, total = t, breakdown = b,
           remarks = join (str '' | '') rmk, raw_stdout = stdout, raw_stderr = stderr\<rparr>"
  by (simp add: main_body_def main_score_def)

lemma main_body_raises:
  "grade stdout = None \<Longrightarrow> main_body points grade sid fname stdout stderr 0 = None"
  by (simp add: main_body_def main_score_def)

lemma zero_or_full_zero:
  "zero_or_full pandas_POINTS (zero_breakdown pandas_POINTS)"
  "zero_or_full list_POINTS (zero_breakdown list_POINTS)"
  unfolding zero_breakdown_pandas zero_breakdown_list
  by (simp_all add: zero_or_full_def pandas_POINTS_def list_POINTS_def)

lemma sum_zero_breakdown:
  "sum_list (map snd (zero_breakdown pandas_POINTS)) = 0"
  "sum_list (map snd (zero_breakdown list_POINTS)) = 0"
  by (simp_all add: zero_breakdown_pandas zero_breakdown_list)

lemma pandas_record_props:
  "\<exists>r. pandas_main_body lit sid fname stdout stderr code = Some r \<and>
     zero_or_full pandas_POINTS (breakdown r) \<and> total r = sum_list (map snd (breakdown r))"
proof (cases "code = 0")
  case True
  obtain t b rmk where g: "pandas_grade_from_stdout lit stdout = Some (t, b, rmk)"
    and p: "zero_or_full pandas_POINTS b" "t = sum_list (map snd b)"
    using pandas_grade_props[of lit stdout] by blast
  show ?thesis
    using True p by (simp add: pandas_main_body_def main_body_success[where grade="pandas_grade_from_stdout lit", OF g])
next
  case False
  then show ?thesis
    by (simp add: pandas_main_body_def main_body_failure zero_or_full_zero sum_zero_breakdown)
qed

lemma list_record_props:
  assumes "code \<noteq> 0 \<or> list_formats lit fmt stdout"
  shows "\<exists>r. list_main_body lit fmt sid fname stdout stderr code = Some r \<and>
     zero_or_full list_POINTS (breakdown r) \<and> total r = sum_list (map snd (breakdown r))"
proof (cases "code = 0")
  case True
  then have "list_formats lit fmt stdout"
    using assms by simp
  then obtain t b rmk where g: "list_grade_from_stdout lit fmt stdout = Some (t, b, rmk)"
    and p: "zero_or_full list_POINTS b" "t = sum_list (map snd b)"
    using list_grade_props[of lit fmt stdout] by blast
  show ?thesis
    using True p by (simp add: list_main_body_def main_body_success[where grade="list_grade_from_stdout lit fmt", OF g])
next
  case False
  then show ?thesis
    by (simp add: list_main_body_def main_body_failure zero_or_full_zero sum_zero_breakdown)
qed

lemma list_record_raises:
  "\<not> list_formats lit fmt stdout \<Longrightarrow> list_main_body lit fmt sid fname stdout stderr 0 = None"
  unfolding list_main_body_def
  by (rule main_body_raises) (rule list_grade_raises)

text \<open>
  Claim C9.  In \<open>grade_pandas.py\<close> the scorer returns for every text, the keys of the
  breakdown are exactly \<open>joined\<close>, \<open>grouped\<close>, \<open>sorted_result\<close> and \<open>top_user\<close>, and the
  total lies between 0 and 40, the sum of the points.  In \<open>grade_python_list.py\<close> the
  same holds, with 70, on the texts for which the scorer returns, and these are not all
  texts: the scorer returns exactly when every task passes or has an expected and an
  extracted value with a text, and otherwise the f-string of the remark raises.  On the
  header of the join task followed by \<open>0x\<close> and 5000 digits \<open>f\<close> the extracted value is
  \<open>16 ^ 5000 - 1\<close>, \<open>str()\<close> of it raises a \<open>ValueError\<close>, and the scorer returns nothing.
\<close>

theorem breakdown_keys_and_total_bounds:
  "(\<exists>t b rmk. pandas_grade_from_stdout lit stdout = Some (t, b, rmk) \<and>
      map fst b = task_keys \<and>
      set (map fst b) = set task_keys \<and>
      0 \<le> t \<and> t \<le> 40 \<and> sum_list (map snd pandas_POINTS) = 40) \<and>
   (list_formats lit fmt stdout \<longrightarrow>
      (\<exists>t b rmk. list_grade_from_stdout lit fmt stdout = Some (t, b, rmk) \<and>
         map fst b = task_keys \<and>
         set (map fst b) = set task_keys \<and>
         0 \<le> t \<and> t \<le> 70 \<and> sum_list (map snd list_POINTS) = 70)) \<and>
   (\<not> list_formats lit fmt stdout \<longrightarrow> list_grade_from_stdout lit fmt stdout = None) \<and>
   extract_after_header literal_eval_model long_hex_output list_joined_header =
     PInt long_hex_value \<and>
   py_str (PInt long_hex_value) = None \<and>
   list_grade_from_stdout literal_eval_model py_str long_hex_output = None"
proof -
  have sums: "sum_list (map snd pandas_POINTS) = 40" "sum_list (map snd list_POINTS) = 70"
    by (simp_all add: pandas_POINTS_def list_POINTS_def)
  obtain t b rmk where p: "pandas_grade_from_stdout lit stdout = Some (t, b, rmk)"
    "map fst b = task_keys" "0 \<le> t" "t \<le> 40"
    using pandas_grade_props[of lit stdout] by blast
  have "set (map fst b) = set task_keys"
    by (simp only: p(2))
  then have 1: "\<exists>t b rmk. pandas_grade_from_stdout lit stdout = Some (t, b, rmk) \<and>
      map fst b = task_keys \<and> set (map fst b) = set task_keys \<and>
      0 \<le> t \<and> t \<le> 40 \<and> sum_list (map snd pandas_POINTS) = 40"
    using p sums(1) by blast
  have 2: "\<exists>t b rmk. list_grade_from_stdout lit fmt stdout = Some (t, b, rmk) \<and>
         map fst b = task_keys \<and> set (map fst b) = set task_keys \<and>
         0 \<le> t \<and> t \<le> 70 \<and> sum_list (map snd list_POINTS) = 70"
    if f: "list_formats lit fmt stdout"
  proof -
    obtain t' b' rmk' where l: "list_grade_from_stdout lit fmt stdout = Some (t', b', rmk')"
      "map fst b' = task_keys" "0 \<le> t'" "t' \<le> 70"
      using list_grade_props[OF f] by blast
    have "set (map fst b') = set task_keys"
      by (simp only: l(2))
    then show ?thesis
      using l sums(2) by blast
  qed
  show ?thesis
    using 1 2 list_grade_raises[of lit fmt stdout] extract_long_hex_model py_str_long_hex_value
      list_grade_long_hex
    by blast
qed

theorem breakdown_keys_and_total_bounds_witness:
  "list_formats literal_eval_model py_str rows_alice_bob \<and>
   (\<exists>t b rmk. pandas_grade_from_stdout literal_eval_model rows_alice_bob = Some (t, b, rmk) \<and>
      map fst b = task_keys \<and> 0 \<le> t \<and> t \<le> 40) \<and>
   (\<exists>t b rmk. list_grade_from_stdout literal_eval_model py_str rows_alice_bob = Some (t, b, rmk) \<and>
      map fst b = task_keys \<and> 0 \<le> t \<and> t \<le> 70)"
  using breakdown_keys_and_total_bounds[of literal_eval_model rows_alice_bob py_str]
    list_formats_rows(1)[of literal_eval_model]
  by blast

text \<open>
  Claim C6.  In \<open>grade_pandas.py\<close>, for every text, the points of each task in the
  breakdown are 0 or the points configured for the task, and the total is the sum of
  the breakdown; the same holds for the record that \<open>main\<close> assembles, whatever the exit
  code.  In \<open>grade_python_list.py\<close> both hold whenever the scorer returns, and for the
  record after every exit code but 0; after exit code 0 on a text on which the f-string
  of a remark raises, no record is assembled.  The header of the join task followed by
  \<open>0x\<close> and 5000 digits \<open>f\<close> is such a text.
\<close>

theorem points_zero_or_full_and_total_is_sum:
  "(\<exists>t b rmk. pandas_grade_from_stdout lit stdout = Some (t, b, rmk) \<and>
      zero_or_full pandas_POINTS b \<and> t = sum_list (map snd b)) \<and>
   (\<exists>r. pandas_main_body lit sid fname stdout stderr code = Some r \<and>
      zero_or_full pandas_POINTS (breakdown r) \<and> total r = sum_list (map snd (breakdown r))) \<and>
   (list_formats lit fmt stdout \<longrightarrow>
      (\<exists>t b rmk. list_grade_from_stdout lit fmt stdout = Some (t, b, rmk) \<and>
         zero_or_full list_POINTS b \<and> t = sum_list (map snd b))) \<and>
   (code \<noteq> 0 \<or> list_formats lit fmt stdout \<longrightarrow>
      (\<exists>r. list_main_body lit fmt sid fname stdout stderr code = Some r \<and>
         zero_or_full list_POINTS (breakdown r) \<and> total r = sum_list (map snd (breakdown r)))) \<and>
   (\<not> list_formats lit fmt stdout \<longrightarrow>
      list_main_body lit fmt sid fname stdout stderr 0 = None) \<and>
   list_main_body literal_eval_model py_str sid fname long_hex_output stderr 0 = None"
proof -
  have 1: "\<exists>t b rmk. pandas_grade_from_stdout lit stdout = Some (t, b, rmk) \<and>
      zero_or_full pandas_POINTS b \<and> t = sum_list (map snd b)"
    using pandas_grade_props[of lit stdout] by blast
  have 2: "\<exists>t b rmk. list_grade_from_stdout lit fmt stdout = Some (t, b, rmk) \<and>
         zero_or_full list_POINTS b \<and> t = sum_list (map snd b)"
    if "list_formats lit fmt stdout"
    using list_grade_props[OF that] by blast
  have 3: "list_main_body literal_eval_model py_str sid fname long_hex_output stderr 0 = None"
    by (rule list_record_raises) (rule not_list_formats_long_hex)
  show ?thesis
    using 1 2 3 pandas_record_props[of lit sid fname stdout stderr code]
      list_record_props[of code lit fmt stdout sid fname stderr]
      list_record_raises[of lit fmt stdout sid fname stderr]
    by blast
qed

theorem points_zero_or_full_and_total_is_sum_witness:
  "list_formats literal_eval_model py_str rows_bob_alice \<and>
   (\<exists>t b rmk. list_grade_from_stdout literal_eval_model py_str rows_bob_alice = Some (t, b, rmk) \<and>
      zero_or_full list_POINTS b \<and> t = sum_list (map snd b)) \<and>
   (\<exists>r. list_main_body literal_eval_model py_str (str ''s1'') (str ''s1_python_list.py'')
           rows_bob_alice [] 124 = Some r \<and>
      zero_or_full list_POINTS (breakdown r) \<and> total r = sum_list (map snd (breakdown r)))"
  using points_zero_or_full_and_total_is_sum[of literal_eval_model rows_bob_alice
      "str ''s1''" "str ''s1_python_list.py''" "[]" 124 py_str]
    list_formats_rows(2)[of literal_eval_model]
  by blast

section \<open>Execution failure\<close>

text \<open>
  Claim C2.  When the exit code is not 0 (124 after a timeout), the total is 0, the
  breakdown maps each of the four keys to 0, and there is exactly one remark, which
  carries the exit code; the scorer is not consulted, so the result is the same for
  every captured output and every scorer.
\<close>

theorem execution_failure_scores_zero:
  "code \<noteq> 0 \<Longrightarrow>
   main_score pandas_POINTS (pandas_grade_from_stdout lit) stdout stderr code =
     Some (0, [(''joined'', 0), (''grouped'', 0), (''sorted_result'', 0), (''top_user'', 0)],
           [str ''Script failed (exit '' @ str_int code @ str ''). Stderr: '' @ take 500 stderr]) \<and>
   main_score list_POINTS (list_grade_from_stdout lit fmt) stdout stderr code =
     Some (0, [(''joined'', 0), (''grouped'', 0), (''sorted_result'', 0), (''top_user'', 0)],
           [str ''Script failed (exit '' @ str_int code @ str ''). Stderr: '' @ take 500 stderr]) \<and>
   pandas_main_body lit sid fname stdout stderr code =
     Some \<lparr>student_id = sid, filename = fname, total = 0,
           breakdown = [(''joined'', 0), (''grouped'', 0), (''sorted_result'', 0), (''top_user'', 0)],
           remarks = str ''Script failed (exit '' @ str_int code @ str ''). Stderr: '' @ take 500 stderr,
           raw_stdout = stdout, raw_stderr = stderr\<rparr> \<and>
   list_main_body lit fmt sid fname stdout stderr code =
     Some \<lparr>student_id = sid, filename = fname, total = 0,
           breakdown = [(''joined'', 0), (''grouped'', 0), (''sorted_result'', 0), (''top_user'', 0)],
           remarks = str ''Script failed (exit '' @ str_int code @ str ''). Stderr: '' @ take 500 stderr,
           raw_stdout = stdout, raw_stderr = stderr\<rparr> \<and>
   main_score points grade stdout stderr code = main_score points grade' stdout' stderr code"
  by (simp add: main_score_failure main_body_failure pandas_main_body_def list_main_body_def
      zero_breakdown_pandas zero_breakdown_list failure_remark_def)

lemma str_int_124: "str_int 124 = str ''124''"
  by (simp add: str_int_def nat_digits.simps str_def)

theorem execution_failure_scores_zero_witness:
  "(124::int) \<noteq> 0 \<and>
   main_score pandas_POINTS (pandas_grade_from_stdout literal_eval_model) scenario_A
       (str ''Timed out after 8s'') 124 =
     Some (0, [(''joined'', 0), (''grouped'', 0), (''sorted_result'', 0), (''top_user'', 0)],
           [str ''Script failed (exit 124). Stderr: Timed out after 8s'']) \<and>
   total (the (list_main_body literal_eval_model py_str (str ''s1'') (str ''s1_python_list.py'')
       scenario_A (str ''Timed out'') 124)) = 0"
  using execution_failure_scores_zero[of 124 literal_eval_model scenario_A
      "str ''Timed out after 8s''" py_str "str ''s1''" "str ''s1_python_list.py''"]
    execution_failure_scores_zero[of 124 literal_eval_model scenario_A
      "str ''Timed out''" py_str "str ''s1''" "str ''s1_python_list.py''"]
  by (simp add: str_int_124 str_def)

section \<open>The patterns of the tolerant matchers and the evidence of a group\<close>

lemma first_pos_Nil: "first_pos P [] = (if P [] then Some 0 else None)"
  by (simp add: first_pos_def)

lemma first_pos_Cons:
  "first_pos P (c # cs) = (if P (c # cs) then Some 0 else map_option Suc (first_pos P cs))"
proof -
  have u: "[0..<Suc (Suc (length cs))] = 0 # map Suc [0..<Suc (length cs)]"
    by (simp only: map_Suc_upt upt_conv_Cons[of 0 "Suc (Suc (length cs))"])
  show ?thesis
    unfolding first_pos_def length_Cons u
    by (simp add: filter_map o_def split: list.splits)
qed

lemma first_pos_Some_iff:
  "first_pos P s = Some i \<longleftrightarrow> i \<le> length s \<and> P (drop i s) \<and> (\<forall>j<i. \<not> P (drop j s))"
proof (induction s arbitrary: i)
  case Nil
  then show ?case by (auto simp: first_pos_Nil)
next
  case (Cons c cs)
  show ?case
  proof (cases "P (c # cs)")
    case True
    then show ?thesis
      by (auto simp: first_pos_Cons intro: ccontr) 
  next
    case False
    show ?thesis
    proof (cases i)
      case 0
      then show ?thesis using False by (simp add: first_pos_Cons)
    next
      case (Suc k)
      have "(\<forall>j<Suc k. \<not> P (drop j (c # cs))) \<longleftrightarrow> (\<forall>j<k. \<not> P (drop j cs))"
        using False by (auto simp: less_Suc_eq_0_disj)
      then show ?thesis
        using False Suc Cons.IH[of k] by (auto simp: first_pos_Cons)
    qed
  qed
qed

lemma first_pos_None_iff: "first_pos P s = None \<longleftrightarrow> (\<forall>i\<le>length s. \<not> P (drop i s))"
proof (induction s)
  case Nil
  then show ?case by (simp add: first_pos_Nil)
next
  case (Cons c cs)
  have "(\<forall>i\<le>length (c # cs). \<not> P (drop i (c # cs))) \<longleftrightarrow>
        \<not> P (c # cs) \<and> (\<forall>i\<le>length cs. \<not> P (drop i cs))" (is "?L \<longleftrightarrow> ?R")
  proof
    assume L: ?L
    have "\<not> P (c # cs)" using L[rule_format, of 0] by simp
    moreover have "\<not> P (drop i cs)" if "i \<le> length cs" for i
      using L[rule_format, of "Suc i"] that by simp
    ultimately show ?R by blast
  next
    assume R: ?R
    show ?L
    proof (intro allI impI)
      fix i assume "i \<le> length (c # cs)"
      then show "\<not> P (drop i (c # cs))"
        using R by (cases i) auto
    qed
  qed
  then show ?case using Cons by (simp add: first_pos_Cons)
qed

lemma search_from_first_pos:
  "search_from r i s = map_option (\<lambda>k. i + k) (first_pos (match_here r) s)"
proof (induction s arbitrary: i)
  case Nil
  then show ?case by (simp add: first_pos_Nil)
next
  case (Cons c cs)
  then show ?case
    by (simp add: first_pos_Cons option.map_comp o_def)
qed

lemma re_search_first_pos: "re_search r s = first_pos (match_here r) s"
  by (simp add: re_search_def search_from_first_pos option.map_ident)

lemma match_here_lits:
  "match_here (lits a @ r) s \<longleftrightarrow> starts_with (str a) s \<and> match_here r (drop (length a) s)"
proof (induction a arbitrary: s)
  case Nil
  then show ?case by (simp add: lits_def str_def starts_with_def)
next
  case (Cons x a)
  have IH: "match_here (lits a @ r) t \<longleftrightarrow> starts_with (str a) t \<and> match_here r (drop (length a) t)" for t
    using Cons[of t] .
  show ?case
  proof (cases s)
    case Nil
    then show ?thesis by (simp add: lits_def str_def starts_with_def)
  next
    case (Cons c cs)
    have "lits (x # a) @ r = (Lit (of_char x), One) # (lits a @ r)"
      by (simp add: lits_def)
    then show ?thesis
      using IH[of cs] Cons by (auto simp: str_def starts_with_def)
  qed
qed

lemma match_here_space_star:
  assumes "\<not> isspace p"
  shows "match_here ((Space, Star) # (Lit p, One) # r) s \<longleftrightarrow>
         match_here ((Lit p, One) # r) (dropWhile isspace s)"
  using assms by (induction s) auto

lemma match_here_space_plus:
  assumes "\<not> isspace p"
  shows "match_here ((Space, Plus) # (Lit p, One) # r) s \<longleftrightarrow>
         takeWhile isspace s \<noteq> [] \<and> match_here ((Lit p, One) # r) (dropWhile isspace s)"
proof (cases s)
  case Nil
  then show ?thesis by simp
next
  case (Cons c cs)
  then show ?thesis
    using match_here_space_star[OF assms, of r cs] assms by auto
qed

lemma match_here_evidence:
  assumes c: "cnt = c0 # c1" "\<not> isspace (of_char c0)"
    and t: "tot = t0 # t1" "\<not> isspace (of_char t0)"
  shows "match_here (lits name @ [(Space, Plus)] @ lits cnt @ [(Space, Plus)] @ lits tot) s
         \<longleftrightarrow> evidence name cnt tot s"
proof -
  have lc: "lits cnt @ rr = (Lit (of_char c0), One) # (lits c1 @ rr)" for rr
    by (simp add: lits_def c)
  have lt: "lits tot = (Lit (of_char t0), One) # lits t1"
    by (simp add: lits_def t)
  have A: "match_here ((Space, Plus) # lits tot) u \<longleftrightarrow>
           takeWhile isspace u \<noteq> [] \<and> starts_with (str tot) (dropWhile isspace u)" for u
    unfolding lt using match_here_space_plus[OF t(2), of "lits t1" u]
      match_here_lits[of tot "[]" "dropWhile isspace u"]
    by (simp add: lt)
  have B: "match_here ((Space, Plus) # lits cnt @ (Space, Plus) # lits tot) u \<longleftrightarrow>
           takeWhile isspace u \<noteq> [] \<and> starts_with (str cnt) (dropWhile isspace u) \<and>
           match_here ((Space, Plus) # lits tot) (drop (length cnt) (dropWhile isspace u))" for u
    unfolding lc using match_here_space_plus[OF c(2), of "lits c1 @ (Space, Plus) # lits tot" u]
      match_here_lits[of cnt "(Space, Plus) # lits tot" "dropWhile isspace u"]
    by (simp add: lc)
  show ?thesis
    using match_here_lits[of name "(Space, Plus) # lits cnt @ (Space, Plus) # lits tot" s]
    by (simp add: A B evidence_def Let_def)
qed

lemma match_RE_G_A: "match_here RE_G_A s = alice_evidence s"
proof -
  have "\<not> isspace (of_char CHR ''2'')"
    by (simp add: isspace_def)
  then show ?thesis
    unfolding RE_G_A_def alice_evidence_def
    using match_here_evidence[of "''2''" "CHR ''2''" "[]" "''250''" "CHR ''2''" "''50''" "''Alice''" s]
    by simp
qed

lemma match_RE_G_B: "match_here RE_G_B s = bob_evidence s"
proof -
  have "\<not> isspace (of_char CHR ''1'')" "\<not> isspace (of_char CHR ''2'')"
    by (simp_all add: isspace_def)
  then show ?thesis
    unfolding RE_G_B_def bob_evidence_def
    using match_here_evidence[of "''1''" "CHR ''1''" "[]" "''200''" "CHR ''2''" "''00''" "''Bob''" s]
    by simp
qed

lemma find_sub_first_pos:
  assumes "sep \<noteq> []"
  shows "find_sub sep pre s =
     (case first_pos (starts_with sep) s of
        None \<Rightarrow> None
      | Some i \<Rightarrow> Some (pre @ take i s, drop (i + length sep) s))"
proof (induction s arbitrary: pre)
  case Nil
  then show ?case using assms by (auto simp: first_pos_Nil starts_with_def)
next
  case (Cons c cs)
  then show ?case
    by (simp add: first_pos_Cons starts_with_def split: option.splits)
qed

lemma section_after_window:
  "header \<noteq> [] \<Longrightarrow> section_after header s = Some (window header s)"
  by (simp add: section_after_eq find_sub_first_pos window_def split: option.splits)

lemma match_here_star_skip: "match_here r t \<Longrightarrow> match_here ((a, Star) # r) t"
  by (cases t) auto

lemma match_here_append: "match_here r s \<Longrightarrow> match_here r (s @ t)"
  by (induction r s rule: match_here.induct) (auto split: if_splits intro: match_here_star_skip)


lemma first_pos_ex_iff: "first_pos P s \<noteq> None \<longleftrightarrow> (\<exists>i\<le>length s. P (drop i s))"
  unfolding first_pos_None_iff by simp

lemma first_pos_cong_pred: "(\<And>t. P t = Q t) \<Longrightarrow> first_pos P s = first_pos Q s"
  by (simp add: first_pos_def)

lemma re_search_RE_G_A: "re_search RE_G_A s = first_pos alice_evidence s"
  unfolding re_search_first_pos by (rule first_pos_cong_pred) (rule match_RE_G_A)

lemma re_search_RE_G_B: "re_search RE_G_B s = first_pos bob_evidence s"
  unfolding re_search_first_pos by (rule first_pos_cong_pred) (rule match_RE_G_B)

lemma pandas_sorted_header_nonempty: "pandas_sorted_header \<noteq> []"
  by (simp add: pandas_sorted_header_def pandas_mark_def)

lemma sorted_fallback_window:
  "sorted_fallback stdout =
     Some (case (first_pos alice_evidence (window pandas_sorted_header stdout),
                 first_pos bob_evidence (window pandas_sorted_header stdout))
           of (Some a, Some b) \<Rightarrow> a < b | _ \<Rightarrow> False)"
  by (simp add: sorted_fallback_def section_after_window[OF pandas_sorted_header_nonempty]
      re_search_RE_G_A re_search_RE_G_B)


lemma pandas_sorted_header_value:
  "pandas_sorted_header = [226, 339, 8230, 32, 83, 111, 114, 116, 101, 100, 32, 82, 101, 115, 117, 108, 116, 58]"
  by (simp add: pandas_sorted_header_def pandas_mark_def str_def)

lemmas evidence_eval =
  alice_evidence_def bob_evidence_def evidence_def starts_with_def str_def isspace_def Let_def
  first_pos_Cons first_pos_Nil window_def


lemma ex_pos_append_left:
  assumes "\<exists>i\<le>length u. match_here r (drop i u)"
  shows "\<exists>i\<le>length (u @ v). match_here r (drop i (u @ v))"
proof -
  from assms obtain i where i: "i \<le> length u" "match_here r (drop i u)" by blast
  then have "match_here r (drop i (u @ v))"
    using match_here_append[of r "drop i u" v] by simp
  then show ?thesis using i(1) by (intro exI[of _ i]) simp
qed

lemma ex_pos_append_right:
  assumes "\<exists>i\<le>length u. match_here r (drop i u)"
  shows "\<exists>i\<le>length (v @ u). match_here r (drop i (v @ u))"
proof -
  from assms obtain i where i: "i \<le> length u" "match_here r (drop i u)" by blast
  then show ?thesis by (intro exI[of _ "length v + i"]) simp
qed

lemma grouped_fallback_ex:
  "grouped_fallback s \<longleftrightarrow>
     (\<exists>i\<le>length s. match_here RE_G_A (drop i s)) \<and> (\<exists>j\<le>length s. match_here RE_G_B (drop j s))"
  unfolding grouped_fallback_def re_search_first_pos first_pos_ex_iff by (rule refl)

text \<open>
  Claim C7.  The tolerant check of the group task passes exactly when the output has,
  at some position, Alice, whitespace, 2, whitespace, 250 and, at some position, Bob,
  whitespace, 1, whitespace, 200.  The two are looked for independently: a text with
  the first one joined to a text with the second one passes in either order.
\<close>

theorem grouped_fallback_is_presence_of_both:
  "(grouped_fallback stdout \<longleftrightarrow>
      (\<exists>i\<le>length stdout. alice_evidence (drop i stdout)) \<and>
      (\<exists>j\<le>length stdout. bob_evidence (drop j stdout))) \<and>
   ((\<exists>i\<le>length u. alice_evidence (drop i u)) \<and> (\<exists>j\<le>length v. bob_evidence (drop j v))
      \<longrightarrow> grouped_fallback (u @ v) \<and> grouped_fallback (v @ u))"
proof -
  have 1: "grouped_fallback stdout \<longleftrightarrow>
      (\<exists>i\<le>length stdout. alice_evidence (drop i stdout)) \<and>
      (\<exists>j\<le>length stdout. bob_evidence (drop j stdout))"
    by (simp add: grouped_fallback_ex match_RE_G_A match_RE_G_B)
  have 2: "grouped_fallback (u @ v) \<and> grouped_fallback (v @ u)"
    if "\<exists>i\<le>length u. alice_evidence (drop i u)" "\<exists>j\<le>length v. bob_evidence (drop j v)"
  proof -
    have a: "\<exists>i\<le>length u. match_here RE_G_A (drop i u)" and b: "\<exists>j\<le>length v. match_here RE_G_B (drop j v)"
      using that by (simp_all add: match_RE_G_A match_RE_G_B)
    show ?thesis
      unfolding grouped_fallback_ex
      using ex_pos_append_left[OF a, of v] ex_pos_append_right[OF a, of v]
        ex_pos_append_left[OF b, of u] ex_pos_append_right[OF b, of u]
      by blast
  qed
  show ?thesis using 1 2 by blast
qed

theorem grouped_fallback_is_presence_of_both_witness:
  "(\<exists>i\<le>length (str ''Alice 2 250''). alice_evidence (drop i (str ''Alice 2 250''))) \<and>
   (\<exists>j\<le>length (str ''Bob 1 200''). bob_evidence (drop j (str ''Bob 1 200''))) \<and>
   grouped_fallback (str ''Alice 2 250'' @ str ''Bob 1 200'') \<and>
   grouped_fallback (str ''Bob 1 200'' @ str ''Alice 2 250'') \<and>
   \<not> grouped_fallback (str ''Alice 2 250'')"
proof -
  have a: "\<exists>i\<le>length (str ''Alice 2 250''). alice_evidence (drop i (str ''Alice 2 250''))"
    by (intro exI[of _ 0]) (simp add: evidence_eval)
  have b: "\<exists>j\<le>length (str ''Bob 1 200''). bob_evidence (drop j (str ''Bob 1 200''))"
    by (intro exI[of _ 0]) (simp add: evidence_eval)
  have c: "first_pos bob_evidence (str ''Alice 2 250'') = None"
    by (simp add: evidence_eval)
  have n: "\<not> (\<exists>j\<le>length (str ''Alice 2 250''). bob_evidence (drop j (str ''Alice 2 250'')))"
    using c first_pos_ex_iff[of bob_evidence "str ''Alice 2 250''"] by simp
  show ?thesis
    using grouped_fallback_is_presence_of_both[of "str ''Alice 2 250''" "str ''Alice 2 250''" "str ''Bob 1 200''"]
      a b n by blast
qed

section \<open>The scoring rule\<close>

lemma task_key_cases:
  assumes "map_of pandas_HEADERS key = Some header"
  shows "key = ''joined'' \<or> key = ''grouped'' \<or> key = ''sorted_result'' \<or> key = ''top_user''"
  using assms by (simp add: pandas_HEADERS_def split: if_splits)

lemma pandas_awarded:
  assumes "map_of pandas_HEADERS key = Some header" "map_of EXPECTED key = Some expected"
    "map_of pandas_POINTS key = Some p"
  shows "awarded key (pandas_grade_from_stdout lit stdout) =
           Some (if strict_pass lit stdout header expected \<or> tolerant_pass key stdout then p else 0)"
  using task_key_cases[OF assms(1)] assms
  by (elim disjE)
     (simp_all add: pandas_grade_form awarded_def pandas_pass_simps pandas_POINTS_def
        pandas_HEADERS_def EXPECTED_def tolerant_pass_def)


lemma list_key_cases:
  assumes "map_of list_HEADERS key = Some header"
  shows "key = ''joined'' \<or> key = ''grouped'' \<or> key = ''sorted_result'' \<or> key = ''top_user''"
  using assms by (simp add: list_HEADERS_def split: if_splits)

lemma list_awarded:
  assumes "map_of list_HEADERS key = Some header" "map_of EXPECTED key = Some expected"
    "map_of list_POINTS key = Some p" "list_formats lit fmt stdout"
  shows "awarded key (list_grade_from_stdout lit fmt stdout) =
           Some (if strict_pass lit stdout header expected then p else 0)"
  using list_key_cases[OF assms(1)] assms
  by (elim disjE)
     (simp_all add: list_grade_form awarded_def list_pass_simps list_POINTS_def
        list_HEADERS_def EXPECTED_def)










section \<open>Letter case in the tolerant matchers\<close>

lemma ascii_lower_idem: "ascii_lower (ascii_lower c) = ascii_lower c"
  by (simp add: ascii_lower_def)

lemma atom_ok_ascii_lower: "case_blind_atom a \<Longrightarrow> atom_ok a (ascii_lower c) = atom_ok a c"
  by (cases a) (auto simp: ignorecase_eq_def ascii_lower_def isspace_def)

lemma match_here_ascii_lower:
  "case_blind r \<Longrightarrow> match_here r (map ascii_lower s) = match_here r s"
  by (induction r s rule: match_here.induct)
     (simp_all add: case_blind_def atom_ok_ascii_lower)

lemma match_here_same_up_to_case:
  assumes "case_blind r" "same_up_to_case s t"
  shows "match_here r s = match_here r t"
  using match_here_ascii_lower[OF assms(1), of s] match_here_ascii_lower[OF assms(1), of t] assms(2)
  by (simp add: same_up_to_case_def)

lemma same_up_to_case_drop: "same_up_to_case s t \<Longrightarrow> same_up_to_case (drop i s) (drop i t)"
  by (simp add: same_up_to_case_def drop_map[symmetric])

lemma same_up_to_case_length: "same_up_to_case s t \<Longrightarrow> length s = length t"
  unfolding same_up_to_case_def by (rule map_eq_imp_length_eq)

lemma re_search_same_up_to_case:
  assumes "case_blind r" "same_up_to_case s t"
  shows "re_search r s = re_search r t"
proof -
  have "match_here r (drop i s) = match_here r (drop i t)" for i
    using match_here_same_up_to_case[OF assms(1) same_up_to_case_drop[OF assms(2)]] .
  then show ?thesis
    by (simp add: re_search_first_pos first_pos_def same_up_to_case_length[OF assms(2)])
qed

lemma case_blind_top: "case_blind RE_TOP_NAME" "case_blind RE_TOP_VAL"
  by (simp_all add: case_blind_def RE_TOP_NAME_def RE_TOP_VAL_def lits_i_def)

lemma printed_output_value:
  "printed_output = [65, 108, 105, 99, 101, 32, 49, 48, 48, 10, 65, 108, 105, 99, 101, 32, 49, 53, 48, 10,
     66, 111, 98, 32, 50, 48, 48, 10, 65, 108, 105, 99, 101, 32, 50, 32, 50, 53, 48, 10,
     66, 111, 98, 32, 49, 32, 50, 48, 48, 10,
     116, 111, 116, 97, 108, 95, 115, 112, 101, 110, 116, 32, 50, 53, 48, 10,
     78, 97, 109, 101, 58, 32, 65, 108, 105, 99, 101]"
  by (simp add: printed_output_def str_def)

lemma printed_output_capitals_value:
  "printed_output_capitals = [65, 76, 73, 67, 69, 32, 49, 48, 48, 10, 65, 76, 73, 67, 69, 32, 49, 53, 48, 10,
     66, 79, 66, 32, 50, 48, 48, 10, 65, 76, 73, 67, 69, 32, 50, 32, 50, 53, 48, 10,
     66, 79, 66, 32, 49, 32, 50, 48, 48, 10,
     84, 79, 84, 65, 76, 95, 83, 80, 69, 78, 84, 32, 50, 53, 48, 10,
     78, 65, 77, 69, 58, 32, 65, 76, 73, 67, 69]"
  by (simp add: printed_output_capitals_def str_def)

lemma regex_values:
  "RE_JOINED_A1 = [(Lit 65, One), (Lit 108, One), (Lit 105, One), (Lit 99, One), (Lit 101, One),
     (Dot, Star), (Lit 49, One), (Lit 48, One), (Lit 48, One)]"
  "RE_JOINED_A2 = [(Lit 65, One), (Lit 108, One), (Lit 105, One), (Lit 99, One), (Lit 101, One),
     (Dot, Star), (Lit 49, One), (Lit 53, One), (Lit 48, One)]"
  "RE_JOINED_B1 = [(Lit 66, One), (Lit 111, One), (Lit 98, One),
     (Dot, Star), (Lit 50, One), (Lit 48, One), (Lit 48, One)]"
  "RE_G_A = [(Lit 65, One), (Lit 108, One), (Lit 105, One), (Lit 99, One), (Lit 101, One),
     (Space, Plus), (Lit 50, One), (Space, Plus), (Lit 50, One), (Lit 53, One), (Lit 48, One)]"
  "RE_G_B = [(Lit 66, One), (Lit 111, One), (Lit 98, One),
     (Space, Plus), (Lit 49, One), (Space, Plus), (Lit 50, One), (Lit 48, One), (Lit 48, One)]"
  "RE_TOP_NAME = [(LitI 78, One), (LitI 97, One), (LitI 109, One), (LitI 101, One), (LitI 58, One),
     (Space, Star), (LitI 65, One), (LitI 108, One), (LitI 105, One), (LitI 99, One), (LitI 101, One)]"
  "RE_TOP_VAL = [(LitI 116, One), (LitI 111, One), (LitI 116, One), (LitI 97, One), (LitI 108, One),
     (LitI 95, One), (LitI 115, One), (LitI 112, One), (LitI 101, One), (LitI 110, One), (LitI 116, One),
     (Space, Plus), (LitI 50, One), (LitI 53, One), (LitI 48, One)]"
  by (simp_all add: RE_JOINED_A1_def RE_JOINED_A2_def RE_JOINED_B1_def RE_G_A_def RE_G_B_def
      RE_TOP_NAME_def RE_TOP_VAL_def lits_def lits_i_def)

lemmas search_eval = re_search_def isspace_def ignorecase_eq_def ascii_lower_def

lemma searches_printed_output:
  "re_search RE_JOINED_A1 printed_output = Some 0"
  "re_search RE_JOINED_A2 printed_output = Some 10"
  "re_search RE_JOINED_B1 printed_output = Some 20"
  "re_search RE_G_A printed_output = Some 28"
  "re_search RE_G_B printed_output = Some 40"
  "re_search RE_TOP_NAME printed_output = Some 66"
  "re_search RE_TOP_VAL printed_output = Some 50"
  by (simp_all add: printed_output_value regex_values search_eval)

lemma searches_printed_output_capitals:
  "re_search RE_JOINED_A1 printed_output_capitals = None"
  "re_search RE_G_A printed_output_capitals = None"
  "re_search RE_TOP_NAME printed_output_capitals = Some 66"
  "re_search RE_TOP_VAL printed_output_capitals = Some 50"
  by (simp_all add: printed_output_capitals_value regex_values search_eval)


lemma pandas_top_header_value:
  "pandas_top_header = [240, 376, 8224, 32, 84, 111, 112, 32, 85, 115, 101, 114, 58]"
  by (simp add: pandas_top_header_def pandas_cup_def str_def)

lemma pandas_top_header_nonempty: "pandas_top_header \<noteq> []"
  by (simp add: pandas_top_header_value)

lemma top_user_fallback_window:
  "top_user_fallback stdout =
     Some (re_search RE_TOP_NAME (window pandas_top_header stdout) \<noteq> None \<and>
           re_search RE_TOP_VAL (window pandas_top_header stdout) \<noteq> None)"
  by (simp add: top_user_fallback_def section_after_window[OF pandas_top_header_nonempty])

lemma sorted_fallback_window_search:
  "sorted_fallback stdout =
     Some (case (re_search RE_G_A (window pandas_sorted_header stdout),
                 re_search RE_G_B (window pandas_sorted_header stdout))
           of (Some a, Some b) \<Rightarrow> a < b | _ \<Rightarrow> False)"
  by (simp add: sorted_fallback_window re_search_RE_G_A re_search_RE_G_B)

lemmas window_eval = window_def first_pos_Cons first_pos_Nil starts_with_def

lemma windows_printed_output:
  "window pandas_sorted_header printed_output = printed_output"
  "window pandas_top_header printed_output = printed_output"
  "window pandas_sorted_header printed_output_capitals = printed_output_capitals"
  "window pandas_top_header printed_output_capitals = printed_output_capitals"
  by (simp_all add: printed_output_value printed_output_capitals_value pandas_sorted_header_value
      pandas_top_header_value window_eval)

lemma same_up_to_case_printed: "same_up_to_case printed_output printed_output_capitals"
  by (simp add: same_up_to_case_def printed_output_value printed_output_capitals_value
      ascii_lower_def)

lemma top_user_fallback_same_up_to_case:
  assumes "same_up_to_case (window pandas_top_header s) (window pandas_top_header t)"
  shows "top_user_fallback s = top_user_fallback t"
  unfolding top_user_fallback_window
  using re_search_same_up_to_case[OF case_blind_top(1) assms]
    re_search_same_up_to_case[OF case_blind_top(2) assms]
  by simp

text \<open>
  Claim C10.  For every text the top-user check is decided by its two patterns in the
  search window: it passes exactly when \<open>Name:\s*Alice\<close> and \<open>total_spent\s+250\<close> both
  match somewhere in the text after the first \<open>Top User:\<close> header (in the whole text
  without the header).  The two patterns match without regard to letter case: on two
  texts that differ in the case of ASCII letters only, each pattern has the same first
  match, so that the check has the same result on two texts whose windows differ in
  the case of ASCII letters only; and \<open>name: ALICE\<close> and \<open>TOTAL_SPENT 250\<close> are
  evidence.  The patterns of the join, group and sort checks are case-sensitive: on a
  printed output put in capitals the top-user check still passes and the other three
  fail, while all four pass on the output as printed.
\<close>

theorem top_user_patterns_ignore_case:
  "top_user_fallback stdout =
     Some (re_search RE_TOP_NAME (window pandas_top_header stdout) \<noteq> None \<and>
           re_search RE_TOP_VAL (window pandas_top_header stdout) \<noteq> None) \<and>
   (same_up_to_case s t \<longrightarrow>
      re_search RE_TOP_NAME s = re_search RE_TOP_NAME t \<and>
      re_search RE_TOP_VAL s = re_search RE_TOP_VAL t) \<and>
   (same_up_to_case (window pandas_top_header u) (window pandas_top_header v) \<longrightarrow>
      top_user_fallback u = top_user_fallback v) \<and>
   re_search RE_TOP_NAME (str ''name: ALICE'') \<noteq> None \<and>
   re_search RE_TOP_VAL (str ''TOTAL_SPENT 250'') \<noteq> None \<and>
   same_up_to_case printed_output printed_output_capitals \<and>
   joined_fallback printed_output \<and> grouped_fallback printed_output \<and>
   sorted_fallback printed_output = Some True \<and> top_user_fallback printed_output = Some True \<and>
   top_user_fallback printed_output_capitals = Some True \<and>
   \<not> joined_fallback printed_output_capitals \<and> \<not> grouped_fallback printed_output_capitals \<and>
   sorted_fallback printed_output_capitals = Some False"
proof -
  have 0: "top_user_fallback stdout =
     Some (re_search RE_TOP_NAME (window pandas_top_header stdout) \<noteq> None \<and>
           re_search RE_TOP_VAL (window pandas_top_header stdout) \<noteq> None)"
    by (rule top_user_fallback_window)
  have 1: "same_up_to_case s t \<longrightarrow>
      re_search RE_TOP_NAME s = re_search RE_TOP_NAME t \<and>
      re_search RE_TOP_VAL s = re_search RE_TOP_VAL t"
    using re_search_same_up_to_case[OF case_blind_top(1), of s t]
      re_search_same_up_to_case[OF case_blind_top(2), of s t] by blast
  have 2: "re_search RE_TOP_NAME (str ''name: ALICE'') \<noteq> None"
    "re_search RE_TOP_VAL (str ''TOTAL_SPENT 250'') \<noteq> None"
    by (simp_all add: str_def regex_values search_eval)
  have 3: "joined_fallback printed_output" "grouped_fallback printed_output"
    "sorted_fallback printed_output = Some True" "top_user_fallback printed_output = Some True"
    by (simp_all add: joined_fallback_def grouped_fallback_def sorted_fallback_window_search
        top_user_fallback_window windows_printed_output searches_printed_output)
  have 4: "top_user_fallback printed_output_capitals = Some True"
    "\<not> joined_fallback printed_output_capitals" "\<not> grouped_fallback printed_output_capitals"
    "sorted_fallback printed_output_capitals = Some False"
    by (simp_all add: joined_fallback_def grouped_fallback_def sorted_fallback_window_search
        top_user_fallback_window windows_printed_output searches_printed_output_capitals)
  have 5: "same_up_to_case (window pandas_top_header u) (window pandas_top_header v) \<longrightarrow>
      top_user_fallback u = top_user_fallback v"
    using top_user_fallback_same_up_to_case[of u v] by blast
  show ?thesis
    apply (intro conjI)
    subgoal by (rule 0)
    subgoal by (rule 1)
    subgoal by (rule 5)
    subgoal by (rule 2)
    subgoal by (rule 2)
    subgoal by (rule same_up_to_case_printed)
    subgoal by (rule 3)
    subgoal by (rule 3)
    subgoal by (rule 3)
    subgoal by (rule 3)
    subgoal by (rule 4)
    subgoal by (rule 4)
    subgoal by (rule 4)
    subgoal by (rule 4)
    done
qed

theorem top_user_patterns_ignore_case_witness:
  "same_up_to_case (str ''Name: Alice'') (str ''nAME:  aLICE'') = False \<and>
   same_up_to_case (str ''Name: Alice'') (str ''nAME: aLICE'') \<and>
   re_search RE_TOP_NAME (str ''nAME: aLICE'') = Some 0 \<and>
   same_up_to_case (window pandas_top_header printed_output)
     (window pandas_top_header printed_output_capitals) \<and>
   top_user_fallback printed_output = top_user_fallback printed_output_capitals"
proof -
  have a: "same_up_to_case (str ''Name: Alice'') (str ''nAME: aLICE'')"
    by (simp add: same_up_to_case_def str_def ascii_lower_def)
  have b: "re_search RE_TOP_NAME (str ''Name: Alice'') = Some 0"
    by (simp add: str_def regex_values search_eval)
  have c: "same_up_to_case (str ''Name: Alice'') (str ''nAME:  aLICE'') = False"
    by (simp add: same_up_to_case_def str_def ascii_lower_def)
  have d: "same_up_to_case (window pandas_top_header printed_output)
     (window pandas_top_header printed_output_capitals)"
    by (simp only: windows_printed_output same_up_to_case_printed)
  show ?thesis
    using top_user_patterns_ignore_case[where stdout="[]" and s="str ''Name: Alice''"
        and t="str ''nAME: aLICE''" and u=printed_output and v=printed_output_capitals] a b c d
    by simp
qed

section \<open>What the extractor returns\<close>

lemma list_grouped_header_value:
  "list_grouped_header = [9989, 32, 71, 114, 111, 117, 112, 101, 100, 32, 82, 101, 115, 117, 108, 116, 58]"
  by (simp add: list_grouped_header_def str_def)

lemmas extract_eval =
  extract_after_header_def splitlines_def is_linebreak_def strip_def isspace_def
  safe_literal_eval_def



lemma scan_header_first:
  assumes "i < length ls" "strip (ls ! i) = header" "\<forall>k<i. strip (ls ! k) \<noteq> header"
  shows "scan_header lit header ls =
     (case next_nonblank (drop (Suc i) ls) of
        Some nxt \<Rightarrow> safe_literal_eval lit nxt | None \<Rightarrow> PNone)"
  using assms
proof (induction ls arbitrary: i)
  case Nil
  then show ?case by simp
next
  case (Cons l ls)
  show ?case
  proof (cases i)
    case 0
    then show ?thesis using Cons.prems by simp
  next
    case (Suc k)
    have h: "strip l \<noteq> header"
      using Cons.prems(3) Suc by (auto dest: spec[of _ 0])
    have "\<forall>j<k. strip (ls ! j) \<noteq> header"
      using Cons.prems(3) Suc by (auto dest: spec[of _ "Suc j" for j])
    then show ?thesis
      using Cons.IH[of k] Cons.prems Suc h by simp
  qed
qed

lemma next_nonblank_all_blank:
  "(\<forall>l\<in>set ls. strip l = []) \<Longrightarrow> next_nonblank ls = None"
  by (induction ls) (auto simp: Let_def)

lemma next_nonblank_first:
  assumes "j < length ls" "strip (ls ! j) \<noteq> []" "\<forall>k<j. strip (ls ! k) = []"
  shows "next_nonblank ls = Some (strip (ls ! j))"
  using assms
proof (induction ls arbitrary: j)
  case Nil
  then show ?case by simp
next
  case (Cons l ls)
  show ?case
  proof (cases j)
    case 0
    then show ?thesis using Cons.prems by (simp add: Let_def)
  next
    case (Suc k)
    have h: "strip l = []"
      using Cons.prems(3) Suc by (auto dest: spec[of _ 0])
    have "\<forall>i<k. strip (ls ! i) = []"
      using Cons.prems(3) Suc by (auto dest: spec[of _ "Suc i" for i])
    then show ?thesis
      using Cons.IH[of k] Cons.prems Suc h by (simp add: Let_def)
  qed
qed

lemma dropWhile_rev_prefix: "\<exists>n. rev (dropWhile P (rev t)) = take n t"
proof -
  have "rev t = takeWhile P (rev t) @ dropWhile P (rev t)" by simp
  then have "t = rev (dropWhile P (rev t)) @ rev (takeWhile P (rev t))"
    by (metis rev_append rev_rev_ident)
  then have "take (length (rev (dropWhile P (rev t)))) t = rev (dropWhile P (rev t))"
    by (metis append_eq_conv_conj)
  then show ?thesis by metis
qed

lemma strip_idem: "strip (strip s) = strip s"
proof -
  define t where "t = dropWhile isspace s"
  define u where "u = rev (dropWhile isspace (rev t))"
  have su: "strip s = u" by (simp add: strip_def t_def u_def)
  have t0: "t = [] \<or> \<not> isspace (hd t)"
    unfolding t_def by (metis hd_dropWhile)
  obtain n where n: "u = take n t"
    unfolding u_def using dropWhile_rev_prefix by blast
  have u0: "u = [] \<or> \<not> isspace (hd u)"
  proof (cases "u = []")
    case True then show ?thesis by simp
  next
    case False
    then have "t \<noteq> []" "0 < n" using n by auto
    then have "hd u = hd t" using n by (cases t; cases n) auto
    then show ?thesis using t0 \<open>t \<noteq> []\<close> by simp
  qed
  then have d1: "dropWhile isspace u = u"
    by (cases u) auto
  have r0: "rev u = [] \<or> \<not> isspace (hd (rev u))"
    unfolding u_def rev_rev_ident by (metis hd_dropWhile)
  then have d2: "dropWhile isspace (rev u) = rev u"
    by (cases "rev u") auto
  show ?thesis
    unfolding su by (simp add: strip_def d1 d2)
qed


lemma scan_header_then_blank:
  assumes "i < length ls" "strip (ls ! i) = header" "\<forall>k<i. strip (ls ! k) \<noteq> header"
    and "\<forall>k. i < k \<and> k < length ls \<longrightarrow> strip (ls ! k) = []"
  shows "scan_header lit header ls = PNone"
proof -
  have "\<forall>l\<in>set (drop (Suc i) ls). strip l = []"
  proof
    fix l assume "l \<in> set (drop (Suc i) ls)"
    then obtain m where m: "m < length (drop (Suc i) ls)" "l = drop (Suc i) ls ! m"
      by (auto simp: in_set_conv_nth)
    then have "l = ls ! (Suc i + m)" "Suc i + m < length ls" by auto
    then show "strip l = []" using assms(4) by simp
  qed
  then show ?thesis
    by (simp add: scan_header_first[OF assms(1-3)] next_nonblank_all_blank)
qed

lemma scan_header_then_literal:
  assumes "i < length ls" "strip (ls ! i) = header" "\<forall>k<i. strip (ls ! k) \<noteq> header"
    and "i < j" "j < length ls" "\<forall>k. i < k \<and> k < j \<longrightarrow> strip (ls ! k) = []"
    and "strip (ls ! j) \<noteq> []"
  shows "scan_header lit header ls = (case lit (strip (ls ! j)) of Some v \<Rightarrow> v | None \<Rightarrow> PNone)"
proof -
  define m where "m = j - Suc i"
  have j: "j = Suc i + m" using assms(4) by (simp add: m_def)
  have 1: "m < length (drop (Suc i) ls)" using assms(5) j by simp
  have 2: "drop (Suc i) ls ! m = ls ! j" using assms(5) j by simp
  have 3: "\<forall>k<m. strip (drop (Suc i) ls ! k) = []"
  proof (intro allI impI)
    fix k assume "k < m"
    then have "i < Suc i + k \<and> Suc i + k < j" "Suc i + k \<le> length ls"
      using j assms(5) by auto
    then show "strip (drop (Suc i) ls ! k) = []"
      using assms(6) by simp
  qed
  have "next_nonblank (drop (Suc i) ls) = Some (strip (ls ! j))"
    using next_nonblank_first[OF 1 _ 3] assms(7) 2 by simp
  then show ?thesis
    by (simp add: scan_header_first[OF assms(1-3)] safe_literal_eval_def strip_idem)
qed

text \<open>
  Claim C4.  Let \<open>ls\<close> be the lines of the output.  When no line, trimmed, is the
  marker, the extractor returns \<open>None\<close>.  Otherwise let \<open>i\<close> be the first line that,
  trimmed, is the marker.  When every later line is blank the extractor returns \<open>None\<close>.
  Otherwise let \<open>j\<close> be the first line after \<open>i\<close> that is not blank: the extractor
  returns the literal parsed from line \<open>j\<close>, trimmed, and \<open>None\<close> when that line is not
  a literal.  Nothing after line \<open>j\<close> is considered, a later occurrence of the marker
  included: every output with the same lines up to \<open>j\<close> gives the same result.
\<close>

theorem extract_after_header_uses_first_marker:
  assumes "ls = splitlines stdout"
  shows
   "((\<forall>l\<in>set ls. strip l \<noteq> header) \<longrightarrow> extract_after_header lit stdout header = PNone) \<and>
    (i < length ls \<and> strip (ls ! i) = header \<and> (\<forall>k<i. strip (ls ! k) \<noteq> header) \<longrightarrow>
       ((\<forall>k. i < k \<and> k < length ls \<longrightarrow> strip (ls ! k) = []) \<longrightarrow>
          extract_after_header lit stdout header = PNone) \<and>
       (i < j \<and> j < length ls \<and> (\<forall>k. i < k \<and> k < j \<longrightarrow> strip (ls ! k) = []) \<and>
        strip (ls ! j) \<noteq> [] \<longrightarrow>
          extract_after_header lit stdout header =
            (case lit (strip (ls ! j)) of Some v \<Rightarrow> v | None \<Rightarrow> PNone) \<and>
          (take (Suc j) (splitlines stdout') = take (Suc j) ls \<longrightarrow>
             extract_after_header lit stdout' header = extract_after_header lit stdout header)))"
proof (intro conjI impI)
  assume "\<forall>l\<in>set ls. strip l \<noteq> header"
  then show "extract_after_header lit stdout header = PNone"
    using assms by (simp add: extract_after_header_def scan_header_absent)
next
  assume a: "i < length ls \<and> strip (ls ! i) = header \<and> (\<forall>k<i. strip (ls ! k) \<noteq> header)"
    and b: "\<forall>k. i < k \<and> k < length ls \<longrightarrow> strip (ls ! k) = []"
  show "extract_after_header lit stdout header = PNone"
    using scan_header_then_blank[of i ls header lit] a b assms
    by (simp add: extract_after_header_def)
next
  assume a: "i < length ls \<and> strip (ls ! i) = header \<and> (\<forall>k<i. strip (ls ! k) \<noteq> header)"
    and b: "i < j \<and> j < length ls \<and> (\<forall>k. i < k \<and> k < j \<longrightarrow> strip (ls ! k) = []) \<and>
        strip (ls ! j) \<noteq> []"
  show r: "extract_after_header lit stdout header =
            (case lit (strip (ls ! j)) of Some v \<Rightarrow> v | None \<Rightarrow> PNone)"
    using scan_header_then_literal[of i ls header j lit] a b assms
    by (simp add: extract_after_header_def)
  assume c: "take (Suc j) (splitlines stdout') = take (Suc j) ls"
  define ls' where "ls' = splitlines stdout'"
  have len: "j < length ls'"
  proof -
    have "length (take (Suc j) ls') = length (take (Suc j) ls)"
      using c by (simp add: ls'_def)
    then show ?thesis using b by simp
  qed
  have nth: "ls' ! k = ls ! k" if "k \<le> j" for k
  proof -
    have "take (Suc j) ls' ! k = take (Suc j) ls ! k" using c by (simp add: ls'_def)
    then show ?thesis using that by simp
  qed
  have "scan_header lit header ls' =
          (case lit (strip (ls' ! j)) of Some v \<Rightarrow> v | None \<Rightarrow> PNone)"
  proof (rule scan_header_then_literal[of i ls' header j lit])
    show "i < length ls'" using len b by simp
    show "strip (ls' ! i) = header" using a b nth[of i] by simp
    show "\<forall>k<i. strip (ls' ! k) \<noteq> header" using a b nth by simp
    show "i < j" using b by simp
    show "j < length ls'" by (rule len)
    show "\<forall>k. i < k \<and> k < j \<longrightarrow> strip (ls' ! k) = []" using b nth by simp
    show "strip (ls' ! j) \<noteq> []" using b nth[of j] by simp
  qed
  then show "extract_after_header lit stdout' header = extract_after_header lit stdout header"
    using r nth[of j] by (simp add: extract_after_header_def ls'_def)
qed

lemma two_headers_value:
  "two_headers = [105, 110, 116, 114, 111, 10, 32, 32, 9989, 32, 71, 114, 111, 117, 112, 101, 100, 32,
     82, 101, 115, 117, 108, 116, 58, 32, 32, 10, 32, 32, 32, 10, 10, 32, 91, 49, 44, 32, 50, 93, 32, 10,
     9989, 32, 71, 114, 111, 117, 112, 101, 100, 32, 82, 101, 115, 117, 108, 116, 58, 10, 91, 51, 93]"
  by (simp add: two_headers_def list_grouped_header_value str_def)

lemma splitlines_two_headers:
  "splitlines two_headers =
     [[105, 110, 116, 114, 111],
      [32, 32, 9989, 32, 71, 114, 111, 117, 112, 101, 100, 32, 82, 101, 115, 117, 108, 116, 58, 32, 32],
      [32, 32, 32], [], [32, 91, 49, 44, 32, 50, 93, 32],
      [9989, 32, 71, 114, 111, 117, 112, 101, 100, 32, 82, 101, 115, 117, 108, 116, 58],
      [91, 51, 93]]"
  by (simp add: two_headers_value splitlines_def is_linebreak_def)

lemmas literal_eval =
  literal_eval_model_def skip_ws_def parse_atom_def parse_nat_def is_digit_def
  continues_token_def is_linebreak_def str_def

lemma literal_eval_1_2: "literal_eval_model [91, 49, 44, 32, 50, 93] = Some (PList [PInt 1, PInt 2])"
  by (simp add: literal_eval)

theorem extract_after_header_uses_first_marker_witness:
  "(1::nat) < length (splitlines two_headers) \<and>
   strip (splitlines two_headers ! 1) = list_grouped_header \<and>
   strip (splitlines two_headers ! 5) = list_grouped_header \<and>
   strip (splitlines two_headers ! 4) = str ''[1, 2]'' \<and>
   extract_after_header literal_eval_model two_headers list_grouped_header = PList [PInt 1, PInt 2] \<and>
   extract_after_header literal_eval_model (str ''no header here'') list_grouped_header = PNone"
proof -
  have s4: "strip (splitlines two_headers ! 4) = [91, 49, 44, 32, 50, 93]"
    by (simp add: splitlines_two_headers strip_def isspace_def)
  have s1: "strip (splitlines two_headers ! 1) = list_grouped_header"
    and s5: "strip (splitlines two_headers ! 5) = list_grouped_header"
    by (simp_all add: splitlines_two_headers strip_def isspace_def list_grouped_header_value)
  have h0: "\<forall>k<(1::nat). strip (splitlines two_headers ! k) \<noteq> list_grouped_header"
    by (simp add: splitlines_two_headers strip_def isspace_def list_grouped_header_value)
  have hb: "\<forall>k. 1 < k \<and> k < (4::nat) \<longrightarrow> strip (splitlines two_headers ! k) = []"
  proof (intro allI impI)
    fix k :: nat assume "1 < k \<and> k < 4"
    then have "k = 2 \<or> k = 3" by auto
    then show "strip (splitlines two_headers ! k) = []"
      by (elim disjE) (simp_all add: splitlines_two_headers strip_def isspace_def)
  qed
  have len: "length (splitlines two_headers) = 7"
    by (simp add: splitlines_two_headers)
  have none: "\<forall>l\<in>set (splitlines (str ''no header here'')). strip l \<noteq> list_grouped_header"
    by (simp add: str_def splitlines_def is_linebreak_def strip_def isspace_def
        list_grouped_header_value)
  show ?thesis
    using extract_after_header_uses_first_marker[OF refl, of two_headers list_grouped_header
        literal_eval_model 1 4 two_headers]
      extract_after_header_uses_first_marker[OF refl, of "str ''no header here''"
        list_grouped_header literal_eval_model 0 0 "[]"]
      s1 s4 s5 h0 hb len none literal_eval_1_2
    by (simp add: str_def)
qed

section \<open>Scenario A\<close>

lemma pandas_joined_header_value:
  "pandas_joined_header = [226, 339, 8230, 32, 74, 111, 105, 110, 101, 100, 32, 82, 101, 115, 117, 108, 116, 58]"
  by (simp add: pandas_joined_header_def pandas_mark_def str_def)

lemma scenario_A_value:
  "scenario_A = [9989, 32, 74, 111, 105, 110, 101, 100, 32, 82, 101, 115, 117, 108, 116, 58, 10,
    91, 123, 39, 110, 97, 109, 101, 39, 58, 32, 39, 65, 108, 105, 99, 101,
    39, 44, 32, 39, 116, 111, 116, 97, 108, 39, 58, 32, 49, 48, 48, 125, 44,
    32, 123, 39, 110, 97, 109, 101, 39, 58, 32, 39, 65, 108, 105, 99, 101,
    39, 44, 32, 39, 116, 111, 116, 97, 108, 39, 58, 32, 49, 53, 48, 125, 44,
    32, 123, 39, 110, 97, 109, 101, 39, 58, 32, 39, 66, 111, 98, 39, 44, 32,
    39, 116, 111, 116, 97, 108, 39, 58, 32, 50, 48, 48, 125, 93]"
  by (simp add: scenario_A_def list_joined_header_value str_def)

lemma expected_joined_value:
  "expected_joined =
     PList [PDict [(PStr [110, 97, 109, 101], PStr [65, 108, 105, 99, 101]),
                   (PStr [116, 111, 116, 97, 108], PInt 100)],
            PDict [(PStr [110, 97, 109, 101], PStr [65, 108, 105, 99, 101]),
                   (PStr [116, 111, 116, 97, 108], PInt 150)],
            PDict [(PStr [110, 97, 109, 101], PStr [66, 111, 98]),
                   (PStr [116, 111, 116, 97, 108], PInt 200)]]"
  by (simp add: expected_joined_def joined_row_def str_def)

lemma extract_scenario_A_list:
  "extract_after_header literal_eval_model scenario_A list_joined_header = expected_joined"
  by (simp add: scenario_A_value list_joined_header_value expected_joined_value extract_eval
      literal_eval)

lemma extract_scenario_A_pandas:
  "extract_after_header lit scenario_A pandas_joined_header = PNone"
  by (simp add: scenario_A_value pandas_joined_header_value extract_eval)

lemma expected_joined_self: "compare_deep expected_joined expected_joined"
  by (simp add: expected_joined_value compare_deep_def num_eq_def)

lemma joined_fallback_scenario_A: "joined_fallback scenario_A"
  by (simp add: joined_fallback_def scenario_A_value regex_values search_eval)

lemma extract_scenario_A_others:
  "extract_after_header lit scenario_A list_grouped_header = PNone"
  "extract_after_header lit scenario_A list_sorted_header = PNone"
  "extract_after_header lit scenario_A list_top_header = PNone"
  by (rule extract_absent_char[of 71], simp add: list_grouped_header_def str_def,
      simp add: scenario_A_value)
     (rule extract_absent_char[of 83], simp add: list_sorted_header_def str_def,
      simp add: scenario_A_value,
      rule extract_absent_char[of 127942], simp add: list_top_header_def,
      simp add: scenario_A_value)

lemma strict_pass_scenario_A:
  "strict_pass literal_eval_model scenario_A list_joined_header expected_joined"
proof -
  have "expected_joined \<noteq> PNone"
    by (simp add: expected_joined_value)
  then show ?thesis
    by (simp add: strict_pass_def extract_scenario_A_list expected_joined_self)
qed

lemma list_formats_scenario_A: "list_formats literal_eval_model py_str scenario_A"
  by (simp add: list_formats_eq list_pass_simps strict_pass_scenario_A extract_scenario_A_others
      py_str_expected py_str_PNone)

text \<open>
  Claim C5.  On the output of Scenario A, \<open>grade_python_list.py\<close> extracts the expected
  value after the header, the strict comparison passes, and the join task gets its 15
  points.  \<open>grade_pandas.py\<close> does not find its header in this output: its header
  strings start with the three characters U+00E2, U+0153 and U+2026 where the output has
  the check mark U+2705.  The extraction gives \<open>None\<close>, the strict comparison fails, and
  the 5 points of the join task come from the tolerant matcher.
\<close>

theorem scenario_A_join_task:
  "extract_after_header literal_eval_model scenario_A list_joined_header = expected_joined \<and>
   strict_pass literal_eval_model scenario_A list_joined_header expected_joined \<and>
   awarded ''joined'' (list_grade_from_stdout literal_eval_model py_str scenario_A) = Some 15 \<and>
   list_joined_header = [9989, 32] @ str ''Joined Result:'' \<and>
   pandas_joined_header = [226, 339, 8230, 32] @ str ''Joined Result:'' \<and>
   extract_after_header literal_eval_model scenario_A pandas_joined_header = PNone \<and>
   \<not> strict_pass literal_eval_model scenario_A pandas_joined_header expected_joined \<and>
   joined_fallback scenario_A \<and>
   awarded ''joined'' (pandas_grade_from_stdout literal_eval_model scenario_A) = Some 5"
proof -
  have sp: "\<not> strict_pass literal_eval_model scenario_A pandas_joined_header expected_joined"
    by (simp add: strict_pass_def extract_scenario_A_pandas)
  have h: "map_of EXPECTED ''joined'' = Some expected_joined"
    "map_of pandas_HEADERS ''joined'' = Some pandas_joined_header"
    "map_of pandas_POINTS ''joined'' = Some 5"
    "map_of list_HEADERS ''joined'' = Some list_joined_header"
    "map_of list_POINTS ''joined'' = Some 15"
    by (simp_all add: EXPECTED_def pandas_HEADERS_def pandas_POINTS_def list_HEADERS_def
        list_POINTS_def)
  have al: "awarded ''joined'' (list_grade_from_stdout literal_eval_model py_str scenario_A) = Some 15"
    using list_awarded[OF h(4) h(1) h(5) list_formats_scenario_A] strict_pass_scenario_A by simp
  have ap: "awarded ''joined'' (pandas_grade_from_stdout literal_eval_model scenario_A) = Some 5"
    using pandas_awarded[OF h(2) h(1) h(3), of literal_eval_model scenario_A]
    by (simp add: tolerant_pass_def joined_fallback_scenario_A)
  have hd: "list_joined_header = [9989, 32] @ str ''Joined Result:''"
    "pandas_joined_header = [226, 339, 8230, 32] @ str ''Joined Result:''"
    by (simp_all add: list_joined_header_def pandas_joined_header_def pandas_mark_def)
  show ?thesis
    apply (intro conjI)
    subgoal by (rule extract_scenario_A_list)
    subgoal by (rule strict_pass_scenario_A)
    subgoal by (rule al)
    subgoal by (rule hd)
    subgoal by (rule hd)
    subgoal by (rule extract_scenario_A_pandas)
    subgoal by (rule sp)
    subgoal by (rule joined_fallback_scenario_A)
    subgoal by (rule ap)
    done
qed

section \<open>The strict comparator\<close>

lemma py_eq_seq_list_all2: "py_eq_seq xs ys = list_all2 py_eq xs ys"
proof (induction xs arbitrary: ys)
  case Nil
  then show ?case by auto
next
  case (Cons x xs)
  then show ?case by (cases ys) simp_all
qed

lemma py_dict_le_list_all: "py_dict_le a b = list_all (\<lambda>(k, v). py_has_item k v b) a"
  by (induction a) (auto split: if_splits)

lemma canon_seq:
  assumes "\<And>x b. x \<in> set xs \<Longrightarrow> hashable x \<Longrightarrow> hashable b \<Longrightarrow> py_eq x b = (canon x = canon b)"
    and "list_all hashable xs" "list_all hashable ys"
  shows "list_all2 py_eq xs ys = (map canon xs = map canon ys)"
  using assms
proof (induction xs arbitrary: ys)
  case Nil
  then show ?case by auto
next
  case (Cons x xs)
  show ?case
  proof (cases ys)
    case Nil
    then show ?thesis by simp
  next
    case (Cons y ys')
    have "py_eq x y = (canon x = canon y)"
      using Cons.prems Cons by simp
    moreover have "list_all2 py_eq xs ys' = (map canon xs = map canon ys')"
      using Cons.IH[of ys'] Cons.prems Cons by simp
    ultimately show ?thesis
      using Cons by simp
  qed
qed

lemma py_eq_canon:
  "hashable a \<Longrightarrow> hashable b \<Longrightarrow> py_eq a b = (canon a = canon b)"
proof (induction a arbitrary: b)
  case PNone
  then show ?case by (cases b) simp_all
next
  case PEllipsis
  then show ?case by (cases b) simp_all
next
  case (PBool x)
  then show ?case by (cases b) (simp_all add: num_eq_def)
next
  case (PInt x)
  then show ?case by (cases b) (simp_all add: num_eq_def)
next
  case (PFloat x)
  then show ?case by (cases b) (simp_all add: num_eq_def)
next
  case (PComplex x y)
  then show ?case by (cases b) (simp_all add: num_eq_def)
next
  case (PStr x)
  then show ?case by (cases b) simp_all
next
  case (PBytes x)
  then show ?case by (cases b) simp_all
next
  case (PList x)
  then show ?case by simp
next
  case (PTuple xs)
  show ?case
  proof (cases b)
    case (PTuple ys)
    have "list_all2 py_eq xs ys = (map canon xs = map canon ys)"
      using canon_seq[of xs ys] PTuple.IH PTuple.prems PTuple by simp
    then show ?thesis
      using PTuple by (simp add: py_eq_seq_list_all2)
  qed simp_all
next
  case (PDict x)
  then show ?case by simp
next
  case (PSet x)
  then show ?case by simp
qed

lemma py_has_item_ex:
  assumes "dict_keys_ok b" "hashable k"
  shows "py_has_item k v b = (\<exists>(k', w)\<in>set b. py_eq k' k \<and> py_eq v w)"
  using assms
proof (induction b)
  case Nil
  then show ?case by simp
next
  case (Cons kw d)
  obtain k1 w1 where kw: "kw = (k1, w1)"
    by (cases kw)
  have ok: "hashable k1" "\<forall>(k', w)\<in>set d. \<not> py_eq k' k1" "dict_keys_ok d"
    using Cons.prems(1) by (simp_all add: kw list_all_iff)
  have hd: "hashable k'" if "(k', w) \<in> set d" for k' w
    using that ok(3) by (induction d) auto
  show ?case
  proof (cases "py_eq k1 k")
    case True
    have "\<not> py_eq k' k" if "(k', w) \<in> set d" for k' w
    proof
      assume "py_eq k' k"
      then have "canon k' = canon k1"
        using True py_eq_canon[OF hd[OF that] Cons.prems(2)] py_eq_canon[OF ok(1) Cons.prems(2)]
        by simp
      then have "py_eq k' k1"
        using py_eq_canon[OF hd[OF that] ok(1)] by simp
      then show False
        using ok(2) that by auto
    qed
    then show ?thesis
      using True by (auto simp: kw)
  next
    case False
    then show ?thesis
      using Cons.IH[OF ok(3) Cons.prems(2)] by (simp add: kw)
  qed
qed

lemma compare_deep_dict:
  "compare_deep (PDict a) (PDict b) =
     (length a = length b \<and> list_all (\<lambda>(k, v). py_has_item k v b) a)"
  by (simp add: compare_deep_def py_dict_le_list_all)

lemma compare_deep_dict_ex:
  assumes "dict_keys_ok b" "list_all (\<lambda>(k, v). hashable k) a"
  shows "compare_deep (PDict a) (PDict b) =
     (length a = length b \<and>
      (\<forall>(k, v)\<in>set a. \<exists>(k', w)\<in>set b. compare_deep k' k \<and> compare_deep v w))"
proof -
  have "py_has_item k v b = (\<exists>(k', w)\<in>set b. compare_deep k' k \<and> compare_deep v w)"
    if "(k, v) \<in> set a" for k v
  proof -
    have "hashable k"
      using assms(2) that by (auto simp: list_all_iff)
    then show ?thesis
      using py_has_item_ex[OF assms(1)] by (simp add: compare_deep_def)
  qed
  then show ?thesis
    unfolding compare_deep_dict list_all_iff by auto
qed

lemma compare_deep_dict_perm_left:
  assumes "mset a' = mset a"
  shows "compare_deep (PDict a') (PDict b) = compare_deep (PDict a) (PDict b)"
  unfolding compare_deep_dict list_all_iff
  using mset_eq_setD[OF assms] mset_eq_length[OF assms] by simp

lemma compare_deep_dict_perm_right:
  assumes "mset b' = mset b" "dict_keys_ok b" "dict_keys_ok b'"
    "list_all (\<lambda>(k, v). hashable k) a"
  shows "compare_deep (PDict a) (PDict b') = compare_deep (PDict a) (PDict b)"
  unfolding compare_deep_dict_ex[OF assms(2) assms(4)] compare_deep_dict_ex[OF assms(3) assms(4)]
  using mset_eq_setD[OF assms(1)] mset_eq_length[OF assms(1)] by simp

lemma compare_deep_shape: "shape_of v \<noteq> shape_of w \<Longrightarrow> \<not> compare_deep v w"
  by (cases v; cases w) (simp_all add: compare_deep_def num_eq_def)

lemma compare_deep_py_eq: "compare_deep = py_eq"
  by (rule ext, rule ext) (simp add: compare_deep_def)

text \<open>
  Claim C8.  The strict comparator is deep structural equality.  Two lists, and two
  tuples, are equal exactly when they have the same length and equal items at each
  position, in order.  Two dictionaries are equal exactly when they have the same number
  of items and every item of the first has an equal key with an equal value in the
  second; the result does not change when the items of either dictionary are put in
  another order (the keys of a dictionary being hashable and pairwise unequal).  Scalars
  are equal when their values are: \<open>None\<close> to \<open>None\<close> only, strings, integers, booleans
  and floats to the same string or number, also across the numeric types, as in
  \<open>100.0 == 100\<close> and \<open>True == 1\<close>.  Two values of different shape (scalar, list,
  tuple, dictionary, set) are never equal: a list is not equal to a tuple or to a
  dictionary, whatever their items.
\<close>

theorem compare_deep_is_deep_equality:
  "compare_deep (PList xs) (PList ys) = list_all2 compare_deep xs ys \<and>
   compare_deep (PTuple xs) (PTuple ys) = list_all2 compare_deep xs ys \<and>
   (dict_keys_ok b \<and> list_all (\<lambda>(k, v). hashable k) a \<longrightarrow>
      compare_deep (PDict a) (PDict b) =
        (length a = length b \<and>
         (\<forall>(k, v)\<in>set a. \<exists>(k', w)\<in>set b. compare_deep k' k \<and> compare_deep v w))) \<and>
   (mset a' = mset a \<longrightarrow>
      compare_deep (PDict a') (PDict b) = compare_deep (PDict a) (PDict b)) \<and>
   (mset b' = mset b \<and> dict_keys_ok b \<and> dict_keys_ok b' \<and>
    list_all (\<lambda>(k, v). hashable k) a \<longrightarrow>
      compare_deep (PDict a) (PDict b') = compare_deep (PDict a) (PDict b)) \<and>
   compare_deep PNone v = (v = PNone) \<and>
   compare_deep (PStr s) (PStr t) = (s = t) \<and>
   compare_deep (PInt i) (PInt j) = (i = j) \<and>
   compare_deep (PBool p) (PBool q) = (p = q) \<and>
   compare_deep (PFloat x) (PFloat y) = (x = y) \<and>
   compare_deep (PFloat x) (PInt i) = (x = Finite (of_int i)) \<and>
   compare_deep (PBool p) (PInt i) = (i = (if p then 1 else 0)) \<and>
   (shape_of v \<noteq> shape_of w \<longrightarrow> \<not> compare_deep v w) \<and>
   \<not> compare_deep (PList xs) (PTuple ys) \<and>
   \<not> compare_deep (PList xs) (PDict a)"
proof -
  have 1: "compare_deep (PList xs) (PList ys) = list_all2 compare_deep xs ys"
    "compare_deep (PTuple xs) (PTuple ys) = list_all2 compare_deep xs ys"
    unfolding compare_deep_py_eq by (simp_all add: py_eq_seq_list_all2)
  have 2: "compare_deep PNone v = (v = PNone)"
    by (cases v) (simp_all add: compare_deep_def)
  have 3: "compare_deep (PStr s) (PStr t) = (s = t)"
    "compare_deep (PInt i) (PInt j) = (i = j)"
    "compare_deep (PBool p) (PBool q) = (p = q)"
    "compare_deep (PFloat x) (PFloat y) = (x = y)"
    "compare_deep (PFloat x) (PInt i) = (x = Finite (of_int i))"
    by (simp_all add: compare_deep_def num_eq_def)
  have 4: "compare_deep (PBool p) (PInt i) = (i = (if p then 1 else 0))"
  proof (cases p)
    case True
    have "((1::rat) = of_int i) = (i = 1)"
      by (metis of_int_1 of_int_eq_iff)
    then show ?thesis
      using True by (simp add: compare_deep_def num_eq_def)
  next
    case False
    then show ?thesis
      by (auto simp: compare_deep_def num_eq_def)
  qed
  have 5: "\<not> compare_deep (PList xs) (PTuple ys)" "\<not> compare_deep (PList xs) (PDict a)"
    by (simp_all add: compare_deep_def)
  show ?thesis
    apply (intro conjI impI)
    subgoal by (rule 1)
    subgoal by (rule 1)
    subgoal by (elim conjE) (rule compare_deep_dict_ex)
    subgoal by (rule compare_deep_dict_perm_left)
    subgoal by (elim conjE) (rule compare_deep_dict_perm_right)
    subgoal by (rule 2)
    subgoal by (rule 3)
    subgoal by (rule 3)
    subgoal by (rule 3)
    subgoal by (rule 3)
    subgoal by (rule 3)
    subgoal by (rule 4)
    subgoal by (rule compare_deep_shape)
    subgoal by (rule 5)
    subgoal by (rule 5)
    done
qed

theorem compare_deep_is_deep_equality_witness:
  "dict_keys_ok [(PStr (str ''a''), PInt 1), (PStr (str ''b''), PInt 2)] \<and>
   dict_keys_ok [(PStr (str ''b''), PInt 2), (PStr (str ''a''), PInt 1)] \<and>
   mset [(PStr (str ''b''), PInt 2), (PStr (str ''a''), PInt 1)] =
     mset [(PStr (str ''a''), PInt 1), (PStr (str ''b''), PInt 2)] \<and>
   compare_deep (PDict [(PStr (str ''a''), PInt 1), (PStr (str ''b''), PInt 2)])
     (PDict [(PStr (str ''b''), PInt 2), (PStr (str ''a''), PInt 1)]) \<and>
   compare_deep (PDict [(PStr (str ''b''), PInt 2), (PStr (str ''a''), PInt 1)])
     (PDict [(PStr (str ''a''), PInt 1), (PStr (str ''b''), PInt 2)]) \<and>
   \<not> compare_deep (PList [PInt 1, PInt 2]) (PList [PInt 2, PInt 1]) \<and>
   shape_of (PList [PInt 1]) \<noteq> shape_of (PTuple [PInt 1]) \<and>
   \<not> compare_deep (PList [PInt 1]) (PTuple [PInt 1])"
proof -
  define d where "d = [(PStr (str ''a''), PInt 1), (PStr (str ''b''), PInt 2)]"
  define d' where "d' = [(PStr (str ''b''), PInt 2), (PStr (str ''a''), PInt 1)]"
  have ok: "dict_keys_ok d" "dict_keys_ok d'" "list_all (\<lambda>(k, v). hashable k) d"
    by (simp_all add: d_def d'_def str_def)
  have m: "mset d' = mset d"
    by (simp add: d_def d'_def)
  have r: "compare_deep (PDict d) (PDict d)"
    by (simp add: d_def compare_deep_def num_eq_def str_def)
  have s: "shape_of (PList [PInt 1]) \<noteq> shape_of (PTuple [PInt 1])"
    by simp
  have l: "\<not> list_all2 compare_deep [PInt 1, PInt 2] [PInt 2, PInt 1]"
    by (simp add: compare_deep_def num_eq_def)
  show ?thesis
    using compare_deep_is_deep_equality[where a=d and a'=d' and b=d and b'=d'
        and v="PList [PInt 1]" and w="PTuple [PInt 1]"
        and xs="[PInt 1, PInt 2]" and ys="[PInt 2, PInt 1]"] ok m r s l
    unfolding d_def[symmetric] d'_def[symmetric]
    by simp
qed

end
